theory Spec2Isabelle
  imports Main "HOL-Library.Word"
begin

section \<open>The query layer (objectbox/query.go)\<close>

subsection \<open>Data\<close>

type_synonym uint64 = "64 word"
type_synonym int64 = "64 word"
type_synonym int32 = "32 word"
type_synonym byte = "8 word"

text \<open>A \<^verbatim>\<open>float64\<close> is only handed on to the native layer, never computed with: it is
  kept as its IEEE-754 bit pattern.\<close>

type_synonym float64 = "64 word"

text \<open>\<^verbatim>\<open>TypeId\<close> is declared elsewhere in the package; it converts to
  \<^verbatim>\<open>C.obx_schema_id\<close>, a 32-bit unsigned integer.\<close>

type_synonym TypeId = "32 word"

text \<open>C pointers are addresses; a pointer that may be \<^verbatim>\<open>nil\<close> is an option.\<close>

type_synonym OBX_query = nat
type_synonym OBX_cursor = nat

text \<open>A Go slice is \<^verbatim>\<open>nil\<close> (\<open>None\<close>) or holds elements; \<^verbatim>\<open>len\<close> of both the nil and the
  empty slice is 0, but only the first equals \<^verbatim>\<open>nil\<close>.\<close>

type_synonym 'a slice = "'a list option"

definition len :: "'a slice \<Rightarrow> nat" where
  "len s = (case s of None \<Rightarrow> 0 | Some xs \<Rightarrow> length xs)"

text \<open>Errors: \<^verbatim>\<open>errors.New\<close> and \<^verbatim>\<open>fmt.Errorf\<close> with a fixed text, and
  \<^verbatim>\<open>createError()\<close>, which wraps the failure the native layer reported last.\<close>

datatype error = Errorf string | createError

record Property =
  propertyId :: TypeId
  entityId :: TypeId

record Query =
  typeId :: TypeId
  cQuery :: "OBX_query option"
  offset :: uint64
  limit :: uint64

text \<open>The value a \<^verbatim>\<open>Find\<close> leaves in its \<^verbatim>\<open>interface{}\<close> result: nothing, the integer 0
  of the closed branch, or the objects of the raw buffers the native call returned.\<close>

datatype objects = nil_interface | int_interface int | decoded "byte list list"

subsection \<open>The native layer\<close>

text \<open>Every call that crosses into the native library is recorded, with its arguments,
  in the order it happens.\<close>

datatype native_call =
    Call_cursor TypeId bool
  | Call_query_close "OBX_query option"
  | Call_query_count "OBX_query option" OBX_cursor
  | Call_query_remove "OBX_query option" OBX_cursor
  | Call_query_find_ids "OBX_query option" OBX_cursor
  | Call_query_find "OBX_query option" OBX_cursor uint64 uint64
  | Call_query_describe_params "OBX_query option"
  | Call_query_string_param "OBX_query option" TypeId TypeId string
  | Call_query_string_params_in "OBX_query option" TypeId TypeId "string list" int32
  | Call_query_int_param "OBX_query option" TypeId TypeId int64
  | Call_query_int_params "OBX_query option" TypeId TypeId int64 int64
  | Call_query_int64_params_in "OBX_query option" TypeId TypeId "int64 list" int32
  | Call_query_int32_params_in "OBX_query option" TypeId TypeId "int32 list" int32
  | Call_query_double_param "OBX_query option" TypeId TypeId float64
  | Call_query_double_params "OBX_query option" TypeId TypeId float64 float64
  | Call_query_bytes_param "OBX_query option" TypeId TypeId "byte list" nat

type_synonym history = "native_call list"

text \<open>The native library is a parameter: what each C function answers, given the calls
  made so far and its arguments. A return code is a C \<^verbatim>\<open>int\<close>; a returned pointer that
  is \<^verbatim>\<open>NULL\<close> is \<open>None\<close>. \<open>obx_query_find_ids\<close> answers with the Go slice that
  \<^verbatim>\<open>cIdsArrayToGo\<close> makes of the returned array (the array itself is freed when \<^verbatim>\<open>findIds\<close>
  returns), \<open>obx_query_find\<close> with the raw buffers of the returned array, and
  \<open>obx_query_param\<close> with the return code of the parameter call it is given.\<close>

record native =
  cursor_for :: "history \<Rightarrow> TypeId \<Rightarrow> bool \<Rightarrow> OBX_cursor option"
  obx_query_close :: "history \<Rightarrow> OBX_query option \<Rightarrow> int"
  obx_query_count :: "history \<Rightarrow> OBX_query option \<Rightarrow> OBX_cursor \<Rightarrow> int \<times> uint64"
  obx_query_remove :: "history \<Rightarrow> OBX_query option \<Rightarrow> OBX_cursor \<Rightarrow> int \<times> uint64"
  obx_query_find_ids :: "history \<Rightarrow> OBX_query option \<Rightarrow> OBX_cursor \<Rightarrow> uint64 slice option"
  obx_query_find ::
    "history \<Rightarrow> OBX_query option \<Rightarrow> OBX_cursor \<Rightarrow> uint64 \<Rightarrow> uint64 \<Rightarrow> byte list list option"
  obx_query_describe_params :: "history \<Rightarrow> OBX_query option \<Rightarrow> string"
  obx_query_param :: "history \<Rightarrow> native_call \<Rightarrow> int"

subsection \<open>Close\<close>

text \<open>\<^verbatim>\<open>Close\<close> returns its error, the query as it leaves it, and the calls made.\<close>

definition Close :: "native \<Rightarrow> Query \<Rightarrow> history \<Rightarrow> error option \<times> Query \<times> history" where
  "Close N query h =
     (if cQuery query \<noteq> None then
        (let rc = obx_query_close N h (cQuery query);
             h' = h @ [Call_query_close (cQuery query)];
             query' = query\<lparr>cQuery := None\<rparr>
         in if rc \<noteq> 0 then (Some createError, query', h') else (None, query', h'))
      else (None, query, h))"

definition errorClosed :: error where
  "errorClosed = Errorf ''illegal state; query was closed''"

definition Offset :: "Query \<Rightarrow> uint64 \<Rightarrow> Query" where
  "Offset query off = query\<lparr>offset := off\<rparr>"

definition Limit :: "Query \<Rightarrow> uint64 \<Rightarrow> Query" where
  "Limit query lim = query\<lparr>limit := lim\<rparr>"

subsection \<open>Cursor-scoped execution\<close>

text \<open>Modelled from the spec: \<^verbatim>\<open>ObjectBox.runWithCursor\<close> is defined elsewhere in the
  package. A call is scoped to a single cursor acquisition, the cursor being supplied by the
  native engine: the acquisition is recorded; when it fails the callback does not run and the
  failure is returned; otherwise the callback runs once with the cursor and its error is
  returned. The callback assigns a variable of the caller, which is passed along: \<open>zero\<close>
  is that variable before the call, and the first component of the result is the variable
  after it.\<close>

definition runWithCursor ::
  "native \<Rightarrow> TypeId \<Rightarrow> bool \<Rightarrow> (OBX_cursor \<Rightarrow> history \<Rightarrow> ('a \<times> error option) \<times> history) \<Rightarrow> 'a \<Rightarrow>
     history \<Rightarrow> ('a \<times> error option) \<times> history" where
  "runWithCursor N tid readOnly cursorFun zero h =
     (case cursor_for N h tid readOnly of
        None \<Rightarrow> ((zero, Some createError), h @ [Call_cursor tid readOnly])
      | Some cursor \<Rightarrow> cursorFun cursor (h @ [Call_cursor tid readOnly]))"

subsection \<open>The cursor-level operations\<close>

definition count :: "native \<Rightarrow> Query \<Rightarrow> OBX_cursor \<Rightarrow> history \<Rightarrow> (uint64 \<times> error option) \<times> history" where
  "count N query cursor h =
     (if cQuery query = None then ((0, Some errorClosed), h)
      else
        (let (rc, cCount) = obx_query_count N h (cQuery query) cursor;
             h' = h @ [Call_query_count (cQuery query) cursor]
         in if rc \<noteq> 0 then ((0, Some createError), h') else ((cCount, None), h')))"

definition remove :: "native \<Rightarrow> Query \<Rightarrow> OBX_cursor \<Rightarrow> history \<Rightarrow> (uint64 \<times> error option) \<times> history" where
  "remove N query cursor h =
     (if cQuery query = None then ((0, Some errorClosed), h)
      else
        (let (rc, cCount) = obx_query_remove N h (cQuery query) cursor;
             h' = h @ [Call_query_remove (cQuery query) cursor]
         in if rc \<noteq> 0 then ((0, Some createError), h') else ((cCount, None), h')))"

definition findIds ::
  "native \<Rightarrow> Query \<Rightarrow> OBX_cursor \<Rightarrow> history \<Rightarrow> (uint64 slice \<times> error option) \<times> history" where
  "findIds N query cursor h =
     (if cQuery query = None then ((None, Some errorClosed), h)
      else
        (let cIdsArray = obx_query_find_ids N h (cQuery query) cursor;
             h' = h @ [Call_query_find_ids (cQuery query) cursor]
         in case cIdsArray of
              None \<Rightarrow> ((None, Some createError), h')
            | Some ids \<Rightarrow> ((ids, None), h')))"

definition find :: "native \<Rightarrow> Query \<Rightarrow> OBX_cursor \<Rightarrow> history \<Rightarrow> (objects \<times> error option) \<times> history" where
  "find N query cursor h =
     (if cQuery query = None then ((int_interface 0, Some errorClosed), h)
      else
        (let cBytesArray = obx_query_find N h (cQuery query) cursor (offset query) (limit query);
             h' = h @ [Call_query_find (cQuery query) cursor (offset query) (limit query)]
         in case cBytesArray of
              None \<Rightarrow> ((nil_interface, Some createError), h')
            | Some bufs \<Rightarrow> ((decoded bufs, None), h')))"

subsection \<open>The public operations\<close>

definition Find :: "native \<Rightarrow> Query \<Rightarrow> history \<Rightarrow> (objects \<times> error option) \<times> history" where
  "Find N query h = runWithCursor N (typeId query) True (find N query) nil_interface h"

text \<open>A call either returns or panics (a run-time panic of Go, here: slice bounds out of
  range).\<close>

datatype 'a outcome = Returns 'a | Panics

text \<open>The slice expression \<^verbatim>\<open>s[low:high]\<close> with indices of type \<^verbatim>\<open>uint64\<close>: it panics
  unless \<^verbatim>\<open>low <= high <= cap(s)\<close>. Every \<open>high\<close> it is used with here is at most
  \<^verbatim>\<open>len(s)\<close>, so the length stands for the capacity. A nil slice sliced \<^verbatim>\<open>[0:0]\<close>
  is nil.\<close>

definition slice_expr :: "'a slice \<Rightarrow> uint64 \<Rightarrow> uint64 \<Rightarrow> 'a slice outcome" where
  "slice_expr s low high =
     (if unat low \<le> unat high \<and> unat high \<le> len s then
        Returns (case s of None \<Rightarrow> None
                 | Some xs \<Rightarrow> Some (take (unat high - unat low) (drop (unat low) xs)))
      else Panics)"

text \<open>The body of the \<^verbatim>\<open>if\<close> of \<^verbatim>\<open>FindIds\<close> (lines 111 to 115): the slicing branch.\<close>

definition paginate :: "Query \<Rightarrow> uint64 slice \<Rightarrow> (uint64 slice \<times> error option) outcome" where
  "paginate query ids =
     (let endOffset = (of_nat (len ids) :: uint64);
          endOffset = (if limit query \<noteq> 0 \<and> offset query + limit query < endOffset
                       then offset query + limit query else endOffset)
      in case slice_expr ids (offset query) endOffset of
           Panics \<Rightarrow> Panics
         | Returns s \<Rightarrow> Returns (s, None))"

definition FindIds ::
  "native \<Rightarrow> Query \<Rightarrow> history \<Rightarrow> (uint64 slice \<times> error option) outcome \<times> history" where
  "FindIds N query h =
     (let ((ids, err), h') = runWithCursor N (typeId query) True (findIds N query) None h
      in if offset query \<noteq> 0 \<or> limit query \<noteq> 0 \<and> err = None \<and> ids \<noteq> None
         then (paginate query ids, h')
         else (Returns (ids, err), h'))"

definition Count :: "native \<Rightarrow> Query \<Rightarrow> history \<Rightarrow> (uint64 \<times> error option) \<times> history" where
  "Count N query h =
     (if offset query \<noteq> 0 \<or> limit query \<noteq> 0 then
        ((0, Some (Errorf ''limit/offset are not supported by Count at this moment'')), h)
      else runWithCursor N (typeId query) True (count N query) 0 h)"

definition Remove :: "native \<Rightarrow> Query \<Rightarrow> history \<Rightarrow> (uint64 \<times> error option) \<times> history" where
  "Remove N query h =
     (if offset query \<noteq> 0 \<or> limit query \<noteq> 0 then
        ((0, Some (Errorf ''limit/offset are not supported by Remove at this moment'')), h)
      else runWithCursor N (typeId query) False (remove N query) 0 h)"

definition Describe :: "native \<Rightarrow> Query \<Rightarrow> history \<Rightarrow> (string \<times> error option) \<times> history" where
  "Describe N query h =
     (if cQuery query = None then (([], Some errorClosed), h)
      else ((obx_query_describe_params N h (cQuery query), None),
            h @ [Call_query_describe_params (cQuery query)]))"

subsection \<open>The parameter setters\<close>

text \<open>The tail every setter shares: the native call \<open>c\<close> is made, and its return code
  decides the result.\<close>

definition native_param :: "native \<Rightarrow> history \<Rightarrow> native_call \<Rightarrow> error option \<times> history" where
  "native_param N h c =
     (let rc = obx_query_param N h c
      in (if rc \<noteq> 0 then Some createError else None, h @ [c]))"

definition SetStringParams ::
  "native \<Rightarrow> Query \<Rightarrow> Property \<Rightarrow> string list \<Rightarrow> history \<Rightarrow> error option \<times> history" where
  "SetStringParams N query property values h =
     (if length values = 0 then (Some (Errorf ''no values given''), h)
      else if length values = 1 then
        native_param N h
          (Call_query_string_param (cQuery query) (entityId property) (propertyId property)
             (values ! 0))
      else (Some (Errorf ''too many values given''), h))"

definition SetStringParamsIn ::
  "native \<Rightarrow> Query \<Rightarrow> Property \<Rightarrow> string list \<Rightarrow> history \<Rightarrow> error option \<times> history" where
  "SetStringParamsIn N query property values h =
     (if length values = 0 then (Some (Errorf ''no values given''), h)
      else
        native_param N h
          (Call_query_string_params_in (cQuery query) (entityId property) (propertyId property)
             values (of_nat (length values))))"

definition SetInt64Params ::
  "native \<Rightarrow> Query \<Rightarrow> Property \<Rightarrow> int64 list \<Rightarrow> history \<Rightarrow> error option \<times> history" where
  "SetInt64Params N query property values h =
     (if length values = 0 then (Some (Errorf ''no values given''), h)
      else if length values = 1 then
        native_param N h
          (Call_query_int_param (cQuery query) (entityId property) (propertyId property)
             (values ! 0))
      else if length values = 2 then
        native_param N h
          (Call_query_int_params (cQuery query) (entityId property) (propertyId property)
             (values ! 0) (values ! 1))
      else (Some (Errorf ''too many values given''), h))"

definition SetInt64ParamsIn ::
  "native \<Rightarrow> Query \<Rightarrow> Property \<Rightarrow> int64 list \<Rightarrow> history \<Rightarrow> error option \<times> history" where
  "SetInt64ParamsIn N query property values h =
     (if length values = 0 then (Some (Errorf ''no values given''), h)
      else
        native_param N h
          (Call_query_int64_params_in (cQuery query) (entityId property) (propertyId property)
             values (of_nat (length values))))"

definition SetInt32ParamsIn ::
  "native \<Rightarrow> Query \<Rightarrow> Property \<Rightarrow> int32 list \<Rightarrow> history \<Rightarrow> error option \<times> history" where
  "SetInt32ParamsIn N query property values h =
     (if length values = 0 then (Some (Errorf ''no values given''), h)
      else
        native_param N h
          (Call_query_int32_params_in (cQuery query) (entityId property) (propertyId property)
             values (of_nat (length values))))"

definition SetFloat64Params ::
  "native \<Rightarrow> Query \<Rightarrow> Property \<Rightarrow> float64 list \<Rightarrow> history \<Rightarrow> error option \<times> history" where
  "SetFloat64Params N query property values h =
     (if length values = 0 then (Some (Errorf ''no values given''), h)
      else if length values = 1 then
        native_param N h
          (Call_query_double_param (cQuery query) (entityId property) (propertyId property)
             (values ! 0))
      else if length values = 2 then
        native_param N h
          (Call_query_double_params (cQuery query) (entityId property) (propertyId property)
             (values ! 0) (values ! 1))
      else (Some (Errorf ''too many values given''), h))"

definition SetBytesParams ::
  "native \<Rightarrow> Query \<Rightarrow> Property \<Rightarrow> byte list list \<Rightarrow> history \<Rightarrow> error option \<times> history" where
  "SetBytesParams N query property values h =
     (if length values = 0 then (Some (Errorf ''no values given''), h)
      else if length values = 1 then
        native_param N h
          (Call_query_bytes_param (cQuery query) (entityId property) (propertyId property)
             (values ! 0) (length (values ! 0)))
      else (Some (Errorf ''too many values given''), h))"

subsection \<open>Concrete native layers and queries\<close>

text \<open>A native layer that succeeds at everything and finds the ten identifiers 0 to 9, one
  whose calls all fail, and an open query on the handle 7.\<close>

definition native_ok :: native where
  "native_ok =
     \<lparr>cursor_for = (\<lambda>h tid ro. Some 1),
      obx_query_close = (\<lambda>h q. 0),
      obx_query_count = (\<lambda>h q c. (0, 10)),
      obx_query_remove = (\<lambda>h q c. (0, 10)),
      obx_query_find_ids = (\<lambda>h q c. Some (Some [0, 1, 2, 3, 4, 5, 6, 7, 8, 9])),
      obx_query_find = (\<lambda>h q c off lim. Some []),
      obx_query_describe_params = (\<lambda>h q. ''query''),
      obx_query_param = (\<lambda>h c. 0)\<rparr>"

definition native_failing :: native where
  "native_failing =
     \<lparr>cursor_for = (\<lambda>h tid ro. Some 1),
      obx_query_close = (\<lambda>h q. 1),
      obx_query_count = (\<lambda>h q c. (1, 0)),
      obx_query_remove = (\<lambda>h q c. (1, 0)),
      obx_query_find_ids = (\<lambda>h q c. None),
      obx_query_find = (\<lambda>h q c off lim. None),
      obx_query_describe_params = (\<lambda>h q. []),
      obx_query_param = (\<lambda>h c. 1)\<rparr>"

definition query7 :: Query where
  "query7 = \<lparr>typeId = 1, cQuery = Some 7, offset = 0, limit = 0\<rparr>"

definition prop1 :: Property where
  "prop1 = \<lparr>propertyId = 2, entityId = 1\<rparr>"

section \<open>The binding generator (the template \<^verbatim>\<open>BindingTemplate\<close>)\<close>

subsection \<open>The schema model\<close>

text \<open>The types of the schema model are declared elsewhere; these are the fields the
  template reads for \<^verbatim>\<open>GetId\<close>, \<^verbatim>\<open>Flatten\<close> and \<^verbatim>\<open>ToObject\<close>.\<close>

record ModelProperty =
  Name :: string
  GoType :: string
  FbType :: string
  FbSlot :: nat
  FbvTableOffset :: nat

record Entity =
  EntityName :: string
  Properties :: "ModelProperty list"
  IdProperty :: ModelProperty
  LastPropertyId_GetId :: nat
  HasNonIdProperty :: bool

subsection \<open>The template functions\<close>

text \<open>\<^verbatim>\<open>strings.Title\<close> and \<^verbatim>\<open>strings.ToLower\<close> are covered on ASCII text, which the
  names of entities and of Go's predeclared types are: a letter starts a word when it follows
  a separator, and every ASCII character but a letter, a digit and the underscore is one. On
  text with a byte outside ASCII the Go functions work on Unicode letters; there the result
  is \<open>None\<close>: not covered.\<close>

definition is_ascii :: "string \<Rightarrow> bool" where
  "is_ascii s = list_all (\<lambda>c. (of_char c :: nat) \<le> 127) s"

definition is_lower :: "char \<Rightarrow> bool" where
  "is_lower c = (97 \<le> (of_char c :: nat) \<and> (of_char c :: nat) \<le> 122)"

definition is_upper :: "char \<Rightarrow> bool" where
  "is_upper c = (65 \<le> (of_char c :: nat) \<and> (of_char c :: nat) \<le> 90)"

definition is_digit :: "char \<Rightarrow> bool" where
  "is_digit c = (48 \<le> (of_char c :: nat) \<and> (of_char c :: nat) \<le> 57)"

definition to_upper :: "char \<Rightarrow> char" where
  "to_upper c =
     (if is_lower c then
        (case c of Char b0 b1 b2 b3 b4 b5 b6 b7 \<Rightarrow> Char b0 b1 b2 b3 b4 False b6 b7)
      else c)"

definition to_lower :: "char \<Rightarrow> char" where
  "to_lower c =
     (if is_upper c then
        (case c of Char b0 b1 b2 b3 b4 b5 b6 b7 \<Rightarrow> Char b0 b1 b2 b3 b4 True b6 b7)
      else c)"

definition isSeparator :: "char \<Rightarrow> bool" where
  "isSeparator c =
     ((of_char c :: nat) \<le> 127 \<and> \<not> (is_lower c \<or> is_upper c \<or> is_digit c \<or> c = CHR ''_''))"

fun title_from :: "char \<Rightarrow> string \<Rightarrow> string" where
  "title_from prev [] = []"
| "title_from prev (c # cs) = (if isSeparator prev then to_upper c else c) # title_from c cs"

definition StringTitle :: "string \<Rightarrow> string option" where
  "StringTitle s = (if is_ascii s then Some (title_from (CHR '' '') s) else None)"

text \<open>\<^verbatim>\<open>StringCamel\<close> slices \<^verbatim>\<open>result[0:1]\<close>, which panics on the empty string.\<close>

definition StringCamel :: "string \<Rightarrow> string outcome option" where
  "StringCamel s =
     (case StringTitle s of
        None \<Rightarrow> None
      | Some result \<Rightarrow>
          Some (if length result < 1 then Panics
                else Returns (map to_lower (take 1 result) @ drop 1 result)))"

subsection \<open>The generated code\<close>

text \<open>The text the template emits for the bodies of \<^verbatim>\<open>Flatten\<close> and \<^verbatim>\<open>ToObject\<close>, as the Go
  statements and expressions it spells. \<open>Raw\<close> is text emitted as it stands.
  \<open>GetSlot_titled T off\<close> is \<^verbatim>\<open>table.Get<Title of T>Slot(off, 0)\<close> for a type name \<open>T\<close> with a
  byte outside ASCII, whose title is not covered.\<close>

datatype expr =
    Ent_field string
  | Id_arg
  | Offset_var string
  | Conv string expr
  | Lit_0
  | Lit_false
  | GetSlot string nat expr
  | GetSlot_fbutils string nat
  | GetSlot_titled string nat

datatype stmt =
    Ent_cast string
  | Var_offset string string expr
  | Raw string
  | StartObject nat
  | PrependSlot string nat expr expr

text \<open>Lines 106 to 116: the offset of a variable-length property.\<close>

definition offset_stmts :: "ModelProperty \<Rightarrow> stmt list" where
  "offset_stmts property =
     (if FbType property = ''UOffsetT'' then
        (if GoType property = ''string'' then
           [Var_offset (Name property) ''CreateStringOffset'' (Ent_field (Name property))]
         else if GoType property = ''[]byte'' then
           [Var_offset (Name property) ''CreateByteVectorOffset'' (Ent_field (Name property))]
         else
           [Raw (''TODO offset creation for the '' @ Name property @ '', type $'' @
                 GoType property @ '' is not implemented'')])
      else [])"

text \<open>Lines 121 to 128: the slot write of a property.\<close>

definition slot_stmt :: "Entity \<Rightarrow> ModelProperty \<Rightarrow> stmt" where
  "slot_stmt entity property =
     (if FbType property = ''UOffsetT'' then
        PrependSlot (FbType property) (FbSlot property) (Offset_var (Name property)) Lit_0
      else if Name property = Name (IdProperty entity) then
        PrependSlot (FbType property) (FbSlot property) Id_arg Lit_0
      else if GoType property = ''bool'' then
        PrependSlot (FbType property) (FbSlot property) (Ent_field (Name property)) Lit_false
      else if GoType property = ''int'' then
        PrependSlot (FbType property) (FbSlot property)
          (Conv ''int32'' (Ent_field (Name property))) Lit_0
      else if GoType property = ''uint'' then
        PrependSlot (FbType property) (FbSlot property)
          (Conv ''uint32'' (Ent_field (Name property))) Lit_0
      else
        PrependSlot (FbType property) (FbSlot property) (Ent_field (Name property)) Lit_0)"

text \<open>Lines 103 to 130: the body of \<^verbatim>\<open>Flatten(entity, fbb, id)\<close>.\<close>

definition Flatten :: "Entity \<Rightarrow> stmt list" where
  "Flatten entity =
     (if HasNonIdProperty entity then [Ent_cast (EntityName entity)] else []) @
     concat (map offset_stmts (Properties entity)) @
     [StartObject (LastPropertyId_GetId entity)] @
     map (slot_stmt entity) (Properties entity)"

text \<open>Lines 136 to 145: the fields of the struct literal \<^verbatim>\<open>ToObject(bytes)\<close> returns, each
  with the expression that reads it from the table.\<close>

definition field_expr :: "ModelProperty \<Rightarrow> expr" where
  "field_expr property =
     (if GoType property = ''bool'' then GetSlot ''Bool'' (FbvTableOffset property) Lit_false
      else if GoType property = ''int'' then
        Conv ''int'' (GetSlot ''Uint32'' (FbvTableOffset property) Lit_0)
      else if GoType property = ''uint'' then
        Conv ''uint'' (GetSlot ''Uint32'' (FbvTableOffset property) Lit_0)
      else if GoType property = ''rune'' then
        Conv ''rune'' (GetSlot ''Int32'' (FbvTableOffset property) Lit_0)
      else if GoType property = ''string'' then
        GetSlot_fbutils ''String'' (FbvTableOffset property)
      else if GoType property = ''[]byte'' then
        GetSlot_fbutils ''ByteVector'' (FbvTableOffset property)
      else
        (case StringTitle (GoType property) of
           Some X \<Rightarrow> GetSlot X (FbvTableOffset property) Lit_0
         | None \<Rightarrow> GetSlot_titled (GoType property) (FbvTableOffset property)))"

definition ToObject :: "Entity \<Rightarrow> (string \<times> expr) list" where
  "ToObject entity = map (\<lambda>property. (Name property, field_expr property)) (Properties entity)"

text \<open>What the template emits for one entity: the name of its binding type, the field
  \<^verbatim>\<open>GetId\<close> reads, and the two bodies. Executing the template fails when a template function
  panics. The result is \<open>None\<close> for an entity name with a byte outside ASCII, which is not
  covered.\<close>

record binding =
  EntityInfo :: string
  GetId :: string
  Flatten_body :: "stmt list"
  ToObject_fields :: "(string \<times> expr) list"

datatype gen_error = ExecError

definition BindingTemplate :: "Entity \<Rightarrow> (gen_error + binding) option" where
  "BindingTemplate entity =
     (case StringCamel (EntityName entity) of
        None \<Rightarrow> None
      | Some Panics \<Rightarrow> Some (Inl ExecError)
      | Some (Returns entityNameCamel) \<Rightarrow>
          Some (Inr \<lparr>EntityInfo = entityNameCamel @ ''EntityInfo'',
                     GetId = Name (IdProperty entity),
                     Flatten_body = Flatten entity,
                     ToObject_fields = ToObject entity\<rparr>))"

subsection \<open>What the generated code computes\<close>

text \<open>A field value of a record: a boolean, an integer of any of Go's integer types (as the
  number it denotes), a string or a byte sequence. Floating-point fields are not covered. A
  record lists its fields in the order of the struct.\<close>

datatype goval = GoBool bool | GoInt int | GoString string | GoBytes "8 word list"

type_synonym object = "(string \<times> goval) list"

text \<open>The integer conversions \<^verbatim>\<open>T(x)\<close> the template spells; \<open>intSize\<close> is the width of
  \<^verbatim>\<open>int\<close> and \<^verbatim>\<open>uint\<close> on the platform, 32 or 64 bits.\<close>

definition go_conv :: "nat \<Rightarrow> string \<Rightarrow> int \<Rightarrow> int option" where
  "go_conv intSize T x =
     (if T = ''int32'' \<or> T = ''rune'' then Some (signed_take_bit 31 x)
      else if T = ''uint32'' then Some (take_bit 32 x)
      else if T = ''int'' then Some (signed_take_bit (intSize - 1) x)
      else if T = ''uint'' then Some (take_bit intSize x)
      else None)"

text \<open>The scalar slots of the buffer library (FlatBuffers for Go, which is not part of the
  repository): the width in bits of each integer slot type, and whether it is read as a
  signed number.\<close>

definition scalar_bits :: "string \<Rightarrow> nat option" where
  "scalar_bits X =
     (if X = ''Bool'' \<or> X = ''Byte'' \<or> X = ''Int8'' \<or> X = ''Uint8'' then Some 8
      else if X = ''Int16'' \<or> X = ''Uint16'' then Some 16
      else if X = ''Int32'' \<or> X = ''Uint32'' then Some 32
      else if X = ''Int64'' \<or> X = ''Uint64'' then Some 64
      else None)"

definition scalar_signed :: "string \<Rightarrow> bool" where
  "scalar_signed X = (X = ''Int8'' \<or> X = ''Int16'' \<or> X = ''Int32'' \<or> X = ''Int64'')"

text \<open>Whether \<open>v\<close> is a value of the argument type of \<^verbatim>\<open>Prepend<X>Slot\<close>: the Go compiler
  rejects any other argument.\<close>

definition scalar_value :: "string \<Rightarrow> goval \<Rightarrow> bool" where
  "scalar_value X v =
     (case (scalar_bits X, v) of
        (Some w, GoBool b) \<Rightarrow> X = ''Bool''
      | (Some w, GoInt x) \<Rightarrow>
          X \<noteq> ''Bool'' \<and>
          (if scalar_signed X then - (2 ^ (w - 1)) \<le> x \<and> x < 2 ^ (w - 1) else 0 \<le> x \<and> x < 2 ^ w)
      | _ \<Rightarrow> False)"

text \<open>A table of the buffer: what is stored under each vtable offset. A scalar slot holds a
  bit pattern of its width; an offset slot refers to a child region.\<close>

datatype cell = Scalar nat int | String_region string | Vector_region "8 word list"

type_synonym table = "(nat \<times> cell) list"

datatype sem_error = Does_not_compile | Runtime_panic | Not_covered

text \<open>The builder while \<^verbatim>\<open>Flatten\<close> runs: the offset variables declared so far, the number
  of slots of the object once it is started, and the slots written.\<close>

record builder =
  offsets :: "(string \<times> cell) list"
  started :: "nat option"
  slots :: table

definition eval_arg :: "nat \<Rightarrow> object \<Rightarrow> 64 word \<Rightarrow> expr \<Rightarrow> sem_error + goval" where
  "eval_arg intSize ent ident e =
     (case e of
        Ent_field n \<Rightarrow> (case map_of ent n of None \<Rightarrow> Inl Does_not_compile | Some v \<Rightarrow> Inr v)
      | Id_arg \<Rightarrow> Inr (GoInt (uint ident))
      | Conv T (Ent_field n) \<Rightarrow>
          (case map_of ent n of
             Some (GoInt x) \<Rightarrow>
               (case go_conv intSize T x of None \<Rightarrow> Inl Not_covered | Some y \<Rightarrow> Inr (GoInt y))
           | _ \<Rightarrow> Inl Does_not_compile)
      | Lit_0 \<Rightarrow> Inr (GoInt 0)
      | Lit_false \<Rightarrow> Inr (GoBool False)
      | _ \<Rightarrow> Inl Not_covered)"

text \<open>\<^verbatim>\<open>Prepend<X>Slot(o, x, d)\<close> of the buffer library writes \<open>x\<close> into slot \<open>o\<close>, which is
  read back under the vtable offset \<open>4 + 2 * o\<close>, unless \<open>x\<close> equals the default \<open>d\<close>; a
  slot beyond the size given to \<^verbatim>\<open>StartObject\<close> is a run-time panic.\<close>

definition prepend_slot :: "string \<Rightarrow> nat \<Rightarrow> goval \<Rightarrow> goval \<Rightarrow> builder \<Rightarrow> sem_error + builder" where
  "prepend_slot X slot x d b =
     (case scalar_bits X of
        None \<Rightarrow> Inl Not_covered
      | Some w \<Rightarrow>
          if \<not> scalar_value X x \<or> \<not> scalar_value X d then Inl Does_not_compile
          else if x = d then Inr b
          else
            (case started b of
               None \<Rightarrow> Inl Runtime_panic
             | Some n \<Rightarrow>
                 if n \<le> slot then Inl Runtime_panic
                 else
                   Inr (b\<lparr>slots :=
                     (4 + 2 * slot,
                      Scalar w
                        (case x of GoBool t \<Rightarrow> (if t then 1 else 0)
                         | GoInt v \<Rightarrow> take_bit w v
                         | _ \<Rightarrow> 0)) # slots b\<rparr>)))"

text \<open>Modelled from the spec: \<^verbatim>\<open>fbutils.CreateStringOffset\<close>, \<^verbatim>\<open>fbutils.CreateByteVectorOffset\<close>,
  \<^verbatim>\<open>fbutils.GetStringSlot\<close> and \<^verbatim>\<open>fbutils.GetByteVectorSlot\<close> are defined elsewhere in the
  repository. A variable-length value gets a child region, whose offset is remembered and
  written into the slot; reading the slot gives the region's content, and the zero value
  when the slot is absent.\<close>

definition create_offset :: "string \<Rightarrow> goval \<Rightarrow> sem_error + cell" where
  "create_offset f v =
     (case v of
        GoString s \<Rightarrow> if f = ''CreateStringOffset'' then Inr (String_region s) else Inl Does_not_compile
      | GoBytes bs \<Rightarrow>
          if f = ''CreateByteVectorOffset'' then Inr (Vector_region bs) else Inl Does_not_compile
      | _ \<Rightarrow> Inl Does_not_compile)"

definition get_slot_fbutils :: "string \<Rightarrow> nat \<Rightarrow> table \<Rightarrow> sem_error + goval" where
  "get_slot_fbutils kind off t =
     (if kind = ''String'' then
        (case map_of t off of
           None \<Rightarrow> Inr (GoString [])
         | Some (String_region s) \<Rightarrow> Inr (GoString s)
         | Some (Vector_region bs) \<Rightarrow> Inr (GoString (map (\<lambda>b. char_of (unat b)) bs))
         | Some (Scalar w x) \<Rightarrow> Inl Not_covered)
      else if kind = ''ByteVector'' then
        (case map_of t off of
           None \<Rightarrow> Inr (GoBytes [])
         | Some (Vector_region bs) \<Rightarrow> Inr (GoBytes bs)
         | Some (String_region s) \<Rightarrow> Inr (GoBytes (map (\<lambda>c. of_nat (of_char c)) s))
         | Some (Scalar w x) \<Rightarrow> Inl Not_covered)
      else Inl Does_not_compile)"

definition exec_stmt :: "nat \<Rightarrow> object \<Rightarrow> 64 word \<Rightarrow> stmt \<Rightarrow> builder \<Rightarrow> sem_error + builder" where
  "exec_stmt intSize ent ident s b =
     (case s of
        Ent_cast n \<Rightarrow> Inr b
      | Raw text \<Rightarrow> Inl Does_not_compile
      | Var_offset n f e \<Rightarrow>
          (case eval_arg intSize ent ident e of
             Inl err \<Rightarrow> Inl err
           | Inr v \<Rightarrow>
               (case create_offset f v of
                  Inl err \<Rightarrow> Inl err
                | Inr c \<Rightarrow> Inr (b\<lparr>offsets := (n, c) # offsets b\<rparr>)))
      | StartObject n \<Rightarrow> Inr (b\<lparr>started := Some n\<rparr>)
      | PrependSlot X slot e d \<Rightarrow>
          (if X = ''UOffsetT'' then
             (case (e, d) of
                (Offset_var n, Lit_0) \<Rightarrow>
                  (case (map_of (offsets b) n, started b) of
                     (None, _) \<Rightarrow> Inl Does_not_compile
                   | (Some c, None) \<Rightarrow> Inl Runtime_panic
                   | (Some c, Some k) \<Rightarrow>
                       if k \<le> slot then Inl Runtime_panic
                       else Inr (b\<lparr>slots := (4 + 2 * slot, c) # slots b\<rparr>))
              | _ \<Rightarrow> Inl Does_not_compile)
           else
             (case (eval_arg intSize ent ident e, eval_arg intSize ent ident d) of
                (Inr x, Inr dv) \<Rightarrow> prepend_slot X slot x dv b
              | (Inl err, _) \<Rightarrow> Inl err
              | (_, Inl err) \<Rightarrow> Inl err)))"

fun exec_stmts :: "nat \<Rightarrow> object \<Rightarrow> 64 word \<Rightarrow> stmt list \<Rightarrow> builder \<Rightarrow> sem_error + builder" where
  "exec_stmts intSize ent ident [] b = Inr b"
| "exec_stmts intSize ent ident (s # ss) b =
     (case exec_stmt intSize ent ident s b of
        Inl err \<Rightarrow> Inl err
      | Inr b' \<Rightarrow> exec_stmts intSize ent ident ss b')"

text \<open>Running the generated \<^verbatim>\<open>Flatten\<close> of an entity on a record and an identifier gives the
  table it built.\<close>

definition run_Flatten :: "nat \<Rightarrow> Entity \<Rightarrow> object \<Rightarrow> 64 word \<Rightarrow> sem_error + table" where
  "run_Flatten intSize entity ent ident =
     (case exec_stmts intSize ent ident (Flatten entity) \<lparr>offsets = [], started = None, slots = []\<rparr> of
        Inl err \<Rightarrow> Inl err
      | Inr b \<Rightarrow> Inr (slots b))"

text \<open>\<^verbatim>\<open>Get<X>Slot(off, d)\<close> of the buffer library reads the slot under the vtable offset
  \<open>off\<close> as an \<open>X\<close>, and gives \<open>d\<close> when the slot is absent.\<close>

definition get_slot :: "string \<Rightarrow> nat \<Rightarrow> goval \<Rightarrow> table \<Rightarrow> sem_error + goval" where
  "get_slot X off d t =
     (case scalar_bits X of
        None \<Rightarrow> Inl Not_covered
      | Some w \<Rightarrow>
          (case map_of t off of
             None \<Rightarrow> if scalar_value X d then Inr d else Inl Does_not_compile
           | Some (Scalar w' x) \<Rightarrow>
               if w' < w then Inl Not_covered
               else if X = ''Bool'' then Inr (GoBool (take_bit w x \<noteq> 0))
               else if scalar_signed X then Inr (GoInt (signed_take_bit (w - 1) x))
               else Inr (GoInt (take_bit w x))
           | Some _ \<Rightarrow> Inl Not_covered))"

fun eval_field :: "nat \<Rightarrow> table \<Rightarrow> expr \<Rightarrow> sem_error + goval" where
  "eval_field intSize t (GetSlot X off Lit_0) = get_slot X off (GoInt 0) t"
| "eval_field intSize t (GetSlot X off Lit_false) = get_slot X off (GoBool False) t"
| "eval_field intSize t (GetSlot_fbutils kind off) = get_slot_fbutils kind off t"
| "eval_field intSize t (Conv T e) =
     (case eval_field intSize t e of
        Inr (GoInt x) \<Rightarrow>
          (case go_conv intSize T x of None \<Rightarrow> Inl Not_covered | Some y \<Rightarrow> Inr (GoInt y))
      | Inr _ \<Rightarrow> Inl Does_not_compile
      | Inl err \<Rightarrow> Inl err)"
| "eval_field intSize t _ = Inl Not_covered"

fun eval_fields :: "nat \<Rightarrow> table \<Rightarrow> (string \<times> expr) list \<Rightarrow> sem_error + object" where
  "eval_fields intSize t [] = Inr []"
| "eval_fields intSize t ((n, e) # fs) =
     (case eval_field intSize t e of
        Inl err \<Rightarrow> Inl err
      | Inr v \<Rightarrow>
          (case eval_fields intSize t fs of
             Inl err \<Rightarrow> Inl err
           | Inr ob \<Rightarrow> Inr ((n, v) # ob)))"

definition run_ToObject :: "nat \<Rightarrow> Entity \<Rightarrow> table \<Rightarrow> sem_error + object" where
  "run_ToObject intSize entity t = eval_fields intSize t (ToObject entity)"

definition roundtrip :: "nat \<Rightarrow> Entity \<Rightarrow> object \<Rightarrow> 64 word \<Rightarrow> sem_error + object" where
  "roundtrip intSize entity ent ident =
     (case run_Flatten intSize entity ent ident of
        Inl err \<Rightarrow> Inl err
      | Inr t \<Rightarrow> run_ToObject intSize entity t)"

subsection \<open>Well-formed entities and records\<close>

text \<open>The slot type the template's statements need for each Go type to compile: an
  offset slot for \<^verbatim>\<open>string\<close> and \<^verbatim>\<open>[]byte\<close>, \<^verbatim>\<open>Bool\<close> for \<^verbatim>\<open>bool\<close>, \<^verbatim>\<open>Int32\<close> for \<^verbatim>\<open>int\<close>
  (written as \<^verbatim>\<open>int32(...)\<close>) and \<^verbatim>\<open>rune\<close>, \<^verbatim>\<open>Uint32\<close> for \<^verbatim>\<open>uint\<close>, and for every other
  type the integer slot that \<^verbatim>\<open>ToObject\<close> reads, named by \<open>StringTitle\<close> of the Go type.\<close>

definition typed_property :: "ModelProperty \<Rightarrow> bool" where
  "typed_property p =
     (if GoType p = ''string'' \<or> GoType p = ''[]byte'' then FbType p = ''UOffsetT''
      else if GoType p = ''bool'' then FbType p = ''Bool''
      else if GoType p = ''int'' \<or> GoType p = ''rune'' then FbType p = ''Int32''
      else if GoType p = ''uint'' then FbType p = ''Uint32''
      else StringTitle (GoType p) = Some (FbType p) \<and>
           FbType p \<in> {''Byte'', ''Int8'', ''Int16'', ''Int32'', ''Int64'',
                        ''Uint8'', ''Uint16'', ''Uint32'', ''Uint64''})"

text \<open>The field values the round trip is shown for. An \<^verbatim>\<open>int\<close> is within 32 bits, and not
  negative where \<^verbatim>\<open>int\<close> has 64 bits; a \<^verbatim>\<open>uint\<close> is within 32 bits; any other value is one
  of its slot type.\<close>

definition field_value :: "nat \<Rightarrow> ModelProperty \<Rightarrow> goval \<Rightarrow> bool" where
  "field_value intSize p v =
     (if GoType p = ''string'' then (case v of GoString s \<Rightarrow> True | _ \<Rightarrow> False)
      else if GoType p = ''[]byte'' then (case v of GoBytes bs \<Rightarrow> True | _ \<Rightarrow> False)
      else if GoType p = ''int'' then
        (case v of
           GoInt x \<Rightarrow> (if intSize = 32 then - (2 ^ 31) \<le> x else 0 \<le> x) \<and> x < 2 ^ 31
         | _ \<Rightarrow> False)
      else if GoType p = ''uint'' then (case v of GoInt x \<Rightarrow> 0 \<le> x \<and> x < 2 ^ 32 | _ \<Rightarrow> False)
      else scalar_value (FbType p) v)"

text \<open>An entity as the schema model is meant to give it: the properties have distinct names
  and slots, each is read under the vtable offset of the slot it is written to, no slot is
  beyond \<^verbatim>\<open>LastPropertyId\<close>, and the identifier property is a \<^verbatim>\<open>uint64\<close>, as \<^verbatim>\<open>GetId\<close>
  returns it.\<close>

definition wf_entity :: "Entity \<Rightarrow> bool" where
  "wf_entity e \<longleftrightarrow>
     distinct (map Name (Properties e)) \<and> distinct (map FbSlot (Properties e)) \<and>
     (\<forall>p\<in>set (Properties e).
        typed_property p \<and> FbvTableOffset p = 4 + 2 * FbSlot p \<and>
        FbSlot p < LastPropertyId_GetId e \<and>
        (Name p = Name (IdProperty e) \<longrightarrow> GoType p = ''uint64''))"

text \<open>The record the round trip should give: the fields as they were, the identifier
  field replaced by the identifier handed to \<^verbatim>\<open>Flatten\<close>.\<close>

definition expect :: "Entity \<Rightarrow> 64 word \<Rightarrow> (ModelProperty \<Rightarrow> goval) \<Rightarrow> ModelProperty \<Rightarrow> goval" where
  "expect e ident val p = (if Name p = Name (IdProperty e) then GoInt (uint ident) else val p)"

text \<open>The child region of a variable-length value; what a slot write leaves unchanged;
  and what a slot write needs to find in the builder.\<close>

definition region :: "goval \<Rightarrow> cell" where
  "region v = (case v of GoString s \<Rightarrow> String_region s | GoBytes bs \<Rightarrow> Vector_region bs
     | _ \<Rightarrow> Scalar 0 0)"

definition frame :: "builder \<Rightarrow> builder \<Rightarrow> nat \<Rightarrow> bool" where
  "frame b b' k \<longleftrightarrow> offsets b' = offsets b \<and> started b' = started b \<and>
     (\<forall>j. j \<noteq> k \<longrightarrow> map_of (slots b') j = map_of (slots b) j)"

definition slot_ready ::
  "nat \<Rightarrow> nat \<Rightarrow> Entity \<Rightarrow> (ModelProperty \<Rightarrow> goval) \<Rightarrow> object \<Rightarrow> builder \<Rightarrow> ModelProperty \<Rightarrow> bool" where
  "slot_ready w n e val ent b p \<longleftrightarrow>
     typed_property p \<and> FbvTableOffset p = 4 + 2 * FbSlot p \<and> FbSlot p < n \<and>
     (Name p = Name (IdProperty e) \<longrightarrow> GoType p = ''uint64'') \<and>
     (Name p \<noteq> Name (IdProperty e) \<longrightarrow> field_value w p (val p)) \<and>
     map_of ent (Name p) = Some (val p) \<and>
     map_of (slots b) (FbvTableOffset p) = None \<and>
     (FbType p = ''UOffsetT'' \<longrightarrow> map_of (offsets b) (Name p) = Some (region (val p)))"

subsection \<open>Concrete entities\<close>

definition prop_Id :: ModelProperty where
  "prop_Id = \<lparr>Name = ''Id'', GoType = ''uint64'', FbType = ''Uint64'', FbSlot = 0, FbvTableOffset = 4\<rparr>"

definition prop_Count :: ModelProperty where
  "prop_Count = \<lparr>Name = ''Count'', GoType = ''int'', FbType = ''Int32'', FbSlot = 1, FbvTableOffset = 6\<rparr>"

definition prop_Letter :: ModelProperty where
  "prop_Letter = \<lparr>Name = ''Letter'', GoType = ''rune'', FbType = ''Int32'', FbSlot = 2, FbvTableOffset = 8\<rparr>"

definition prop_Text :: ModelProperty where
  "prop_Text = \<lparr>Name = ''Text'', GoType = ''string'', FbType = ''UOffsetT'', FbSlot = 1, FbvTableOffset = 6\<rparr>"

definition prop_Data :: ModelProperty where
  "prop_Data = \<lparr>Name = ''Data'', GoType = ''[]byte'', FbType = ''UOffsetT'', FbSlot = 2, FbvTableOffset = 8\<rparr>"

definition prop_Done :: ModelProperty where
  "prop_Done = \<lparr>Name = ''Done'', GoType = ''bool'', FbType = ''Bool'', FbSlot = 3, FbvTableOffset = 10\<rparr>"

definition prop_Size :: ModelProperty where
  "prop_Size = \<lparr>Name = ''Size'', GoType = ''uint'', FbType = ''Uint32'', FbSlot = 4, FbvTableOffset = 12\<rparr>"

definition prop_Tags :: ModelProperty where
  "prop_Tags = \<lparr>Name = ''Tags'', GoType = ''[]string'', FbType = ''UOffsetT'', FbSlot = 1, FbvTableOffset = 6\<rparr>"

text \<open>An entity with an \<^verbatim>\<open>int\<close> and a \<^verbatim>\<open>rune\<close> field, one with a field of every other
  kind, and one with a variable-length field the template has no rule for. The slot types
  are those the emitted statements compile with: \<^verbatim>\<open>PrependInt32Slot\<close> is the one that takes
  the \<^verbatim>\<open>int32(...)\<close> written for an \<^verbatim>\<open>int\<close>.\<close>

definition Counter :: Entity where
  "Counter =
     \<lparr>EntityName = ''Counter'', Properties = [prop_Id, prop_Count, prop_Letter],
      IdProperty = prop_Id, LastPropertyId_GetId = 3, HasNonIdProperty = True\<rparr>"

definition Note :: Entity where
  "Note =
     \<lparr>EntityName = ''Note'', Properties = [prop_Id, prop_Text, prop_Data, prop_Done, prop_Size],
      IdProperty = prop_Id, LastPropertyId_GetId = 5, HasNonIdProperty = True\<rparr>"

definition Tagged :: Entity where
  "Tagged =
     \<lparr>EntityName = ''Tagged'', Properties = [prop_Id, prop_Tags],
      IdProperty = prop_Id, LastPropertyId_GetId = 2, HasNonIdProperty = True\<rparr>"

text \<open>The fields of a record of \<open>Note\<close>, by property.\<close>

definition note_val :: "ModelProperty \<Rightarrow> goval" where
  "note_val p =
     (if Name p = ''Text'' then GoString []
      else if Name p = ''Data'' then GoBytes []
      else if Name p = ''Done'' then GoBool True
      else GoInt 7)"

section \<open>Properties of the query layer\<close>

text \<open>Claim C7. \<^verbatim>\<open>Close\<close> is idempotent. Whatever a first \<^verbatim>\<open>Close\<close> returns, it leaves the
  handle nil, and a further \<^verbatim>\<open>Close\<close> of the query it leaves, under any native layer and
  after any calls, returns no error, changes nothing and makes no native call. A
  \<^verbatim>\<open>Close\<close> of a query whose handle is already nil is that no-op. A \<^verbatim>\<open>Close\<close> of an open
  query makes exactly the one call \<^verbatim>\<open>obx_query_close\<close>, and returns the native error when
  that call's return code is not 0: the handle is cleared all the same.\<close>

theorem Close_idempotent:
  "Close N query h = (e, query', h') \<Longrightarrow>
     cQuery query' = None \<and>
     Close N' query' h'' = (None, query', h'') \<and>
     (cQuery query = None \<longrightarrow> e = None \<and> query' = query \<and> h' = h) \<and>
     (cQuery query \<noteq> None \<longrightarrow>
        h' = h @ [Call_query_close (cQuery query)] \<and>
        e = (if obx_query_close N h (cQuery query) \<noteq> 0 then Some createError else None))"
  by (auto simp: Close_def Let_def split: if_splits)

theorem Close_idempotent_witness:
  "Close native_failing query7 [] =
     (Some createError, query7\<lparr>cQuery := None\<rparr>, [Call_query_close (Some 7)]) \<and>
   Close native_failing (query7\<lparr>cQuery := None\<rparr>) [Call_query_close (Some 7)] =
     (None, query7\<lparr>cQuery := None\<rparr>, [Call_query_close (Some 7)])"
proof -
  have c: "Close native_failing query7 [] =
     (Some createError, query7\<lparr>cQuery := None\<rparr>, [Call_query_close (Some 7)])"
    by (simp add: Close_def native_failing_def query7_def)
  from Close_idempotent [OF c] show ?thesis using c by simp
qed

lemma native_param_call:
  "native_param N h c = (if obx_query_param N h c \<noteq> 0 then Some createError else None, h @ [c])"
  by (simp add: native_param_def Let_def)

lemma SetStringParams_arity:
  "(length ss = 0 \<longrightarrow> SetStringParams N q p ss h = (Some (Errorf ''no values given''), h)) \<and>
   (length ss = 1 \<longrightarrow> SetStringParams N q p ss h =
      native_param N h (Call_query_string_param (cQuery q) (entityId p) (propertyId p) (ss ! 0))) \<and>
   (1 < length ss \<longrightarrow> SetStringParams N q p ss h = (Some (Errorf ''too many values given''), h))"
  by (simp add: SetStringParams_def)

lemma SetBytesParams_arity:
  "(length bs = 0 \<longrightarrow> SetBytesParams N q p bs h = (Some (Errorf ''no values given''), h)) \<and>
   (length bs = 1 \<longrightarrow> SetBytesParams N q p bs h =
      native_param N h (Call_query_bytes_param (cQuery q) (entityId p) (propertyId p) (bs ! 0)
        (length (bs ! 0)))) \<and>
   (1 < length bs \<longrightarrow> SetBytesParams N q p bs h = (Some (Errorf ''too many values given''), h))"
  by (simp add: SetBytesParams_def)

lemma SetInt64Params_arity:
  "(length is = 0 \<longrightarrow> SetInt64Params N q p is h = (Some (Errorf ''no values given''), h)) \<and>
   (length is = 1 \<longrightarrow> SetInt64Params N q p is h =
      native_param N h (Call_query_int_param (cQuery q) (entityId p) (propertyId p) (is ! 0))) \<and>
   (length is = 2 \<longrightarrow> SetInt64Params N q p is h =
      native_param N h
        (Call_query_int_params (cQuery q) (entityId p) (propertyId p) (is ! 0) (is ! 1))) \<and>
   (2 < length is \<longrightarrow> SetInt64Params N q p is h = (Some (Errorf ''too many values given''), h))"
  by (simp add: SetInt64Params_def)

lemma SetFloat64Params_arity:
  "(length fs = 0 \<longrightarrow> SetFloat64Params N q p fs h = (Some (Errorf ''no values given''), h)) \<and>
   (length fs = 1 \<longrightarrow> SetFloat64Params N q p fs h =
      native_param N h (Call_query_double_param (cQuery q) (entityId p) (propertyId p) (fs ! 0))) \<and>
   (length fs = 2 \<longrightarrow> SetFloat64Params N q p fs h =
      native_param N h
        (Call_query_double_params (cQuery q) (entityId p) (propertyId p) (fs ! 0) (fs ! 1))) \<and>
   (2 < length fs \<longrightarrow> SetFloat64Params N q p fs h = (Some (Errorf ''too many values given''), h))"
  by (simp add: SetFloat64Params_def)

lemma In_arity:
  "(length ss = 0 \<longrightarrow> SetStringParamsIn N q p ss h = (Some (Errorf ''no values given''), h)) \<and>
   (0 < length ss \<longrightarrow> SetStringParamsIn N q p ss h =
      native_param N h (Call_query_string_params_in (cQuery q) (entityId p) (propertyId p) ss
        (of_nat (length ss)))) \<and>
   (length is = 0 \<longrightarrow> SetInt64ParamsIn N q p is h = (Some (Errorf ''no values given''), h)) \<and>
   (0 < length is \<longrightarrow> SetInt64ParamsIn N q p is h =
      native_param N h (Call_query_int64_params_in (cQuery q) (entityId p) (propertyId p) is
        (of_nat (length is)))) \<and>
   (length js = 0 \<longrightarrow> SetInt32ParamsIn N q p js h = (Some (Errorf ''no values given''), h)) \<and>
   (0 < length js \<longrightarrow> SetInt32ParamsIn N q p js h =
      native_param N h (Call_query_int32_params_in (cQuery q) (entityId p) (propertyId p) js
        (of_nat (length js))))"
  by (simp add: SetStringParamsIn_def SetInt64ParamsIn_def SetInt32ParamsIn_def)

text \<open>Claim C6. The arity rules of the parameter setters. \<^verbatim>\<open>SetStringParams\<close> and
  \<^verbatim>\<open>SetBytesParams\<close> make their native call for exactly one value; \<^verbatim>\<open>SetInt64Params\<close> and
  \<^verbatim>\<open>SetFloat64Params\<close> for exactly one value (the single-value call) or exactly two (the
  two-value call); the three \<^verbatim>\<open>In\<close> setters for any non-zero number of values. With no
  value every setter returns the error "no values given", and with more values than its
  type takes "too many values given": in both cases the calls made are unchanged, so no
  native call was attempted. An accepted call is the only call made, and its return code
  decides the result.\<close>

theorem setter_arity:
  "((length ss = 0 \<longrightarrow> SetStringParams N q p ss h = (Some (Errorf ''no values given''), h)) \<and>
    (length ss = 1 \<longrightarrow> SetStringParams N q p ss h =
       native_param N h (Call_query_string_param (cQuery q) (entityId p) (propertyId p) (ss ! 0))) \<and>
    (1 < length ss \<longrightarrow> SetStringParams N q p ss h = (Some (Errorf ''too many values given''), h))) \<and>
   ((length bs = 0 \<longrightarrow> SetBytesParams N q p bs h = (Some (Errorf ''no values given''), h)) \<and>
    (length bs = 1 \<longrightarrow> SetBytesParams N q p bs h =
       native_param N h (Call_query_bytes_param (cQuery q) (entityId p) (propertyId p) (bs ! 0)
         (length (bs ! 0)))) \<and>
    (1 < length bs \<longrightarrow> SetBytesParams N q p bs h = (Some (Errorf ''too many values given''), h))) \<and>
   ((length is = 0 \<longrightarrow> SetInt64Params N q p is h = (Some (Errorf ''no values given''), h)) \<and>
    (length is = 1 \<longrightarrow> SetInt64Params N q p is h =
       native_param N h (Call_query_int_param (cQuery q) (entityId p) (propertyId p) (is ! 0))) \<and>
    (length is = 2 \<longrightarrow> SetInt64Params N q p is h =
       native_param N h
         (Call_query_int_params (cQuery q) (entityId p) (propertyId p) (is ! 0) (is ! 1))) \<and>
    (2 < length is \<longrightarrow> SetInt64Params N q p is h = (Some (Errorf ''too many values given''), h))) \<and>
   ((length fs = 0 \<longrightarrow> SetFloat64Params N q p fs h = (Some (Errorf ''no values given''), h)) \<and>
    (length fs = 1 \<longrightarrow> SetFloat64Params N q p fs h =
       native_param N h (Call_query_double_param (cQuery q) (entityId p) (propertyId p) (fs ! 0))) \<and>
    (length fs = 2 \<longrightarrow> SetFloat64Params N q p fs h =
       native_param N h
         (Call_query_double_params (cQuery q) (entityId p) (propertyId p) (fs ! 0) (fs ! 1))) \<and>
    (2 < length fs \<longrightarrow> SetFloat64Params N q p fs h = (Some (Errorf ''too many values given''), h))) \<and>
   ((length ss = 0 \<longrightarrow> SetStringParamsIn N q p ss h = (Some (Errorf ''no values given''), h)) \<and>
    (0 < length ss \<longrightarrow> SetStringParamsIn N q p ss h =
       native_param N h (Call_query_string_params_in (cQuery q) (entityId p) (propertyId p) ss
         (of_nat (length ss)))) \<and>
    (length is = 0 \<longrightarrow> SetInt64ParamsIn N q p is h = (Some (Errorf ''no values given''), h)) \<and>
    (0 < length is \<longrightarrow> SetInt64ParamsIn N q p is h =
       native_param N h (Call_query_int64_params_in (cQuery q) (entityId p) (propertyId p) is
         (of_nat (length is)))) \<and>
    (length js = 0 \<longrightarrow> SetInt32ParamsIn N q p js h = (Some (Errorf ''no values given''), h)) \<and>
    (0 < length js \<longrightarrow> SetInt32ParamsIn N q p js h =
       native_param N h (Call_query_int32_params_in (cQuery q) (entityId p) (propertyId p) js
         (of_nat (length js))))) \<and>
   (\<forall>c. native_param N h c =
      (if obx_query_param N h c \<noteq> 0 then Some createError else None, h @ [c]))"
  using SetStringParams_arity [of ss N q p h] SetBytesParams_arity [of bs N q p h]
    SetInt64Params_arity [of "is" N q p h] SetFloat64Params_arity [of fs N q p h]
    In_arity [of ss N q p h "is" js] native_param_call [of N h]
  by blast

theorem setter_arity_witness:
  "SetStringParams native_ok query7 prop1 [] [] = (Some (Errorf ''no values given''), []) \<and>
   SetStringParams native_ok query7 prop1 [''a'', ''b''] [] =
     (Some (Errorf ''too many values given''), []) \<and>
   SetInt64Params native_ok query7 prop1 [1, 2] [] =
     (None, [Call_query_int_params (Some 7) 1 2 1 2]) \<and>
   SetInt64Params native_ok query7 prop1 [1, 2, 3] [] =
     (Some (Errorf ''too many values given''), [])"
  using setter_arity [of "[]" native_ok query7 prop1 "[]" "[]" "[1, 2]" "[]" "[]"]
    setter_arity [of "[''a'', ''b'']" native_ok query7 prop1 "[]" "[]" "[1, 2, 3]" "[]" "[]"]
  by (simp add: native_ok_def query7_def prop1_def)

text \<open>Claim C5. With a non-zero offset or a non-zero limit, \<^verbatim>\<open>Count\<close> and \<^verbatim>\<open>Remove\<close> return
  their "limit/offset are not supported" error and the calls made are unchanged: no cursor
  was acquired and no native call made. With offset and limit both 0 the guard lets the call
  through: the result is that of the cursor-scoped \<^verbatim>\<open>count\<close> or \<^verbatim>\<open>remove\<close>, the first new
  call is the cursor acquisition (read-only for \<^verbatim>\<open>Count\<close>, writing for \<^verbatim>\<open>Remove\<close>), and
  for an open query with its cursor acquired the native count or remove call follows.\<close>

theorem Count_Remove_options:
  "(offset query \<noteq> 0 \<or> limit query \<noteq> 0 \<longrightarrow>
      Count N query h =
        ((0, Some (Errorf ''limit/offset are not supported by Count at this moment'')), h) \<and>
      Remove N query h =
        ((0, Some (Errorf ''limit/offset are not supported by Remove at this moment'')), h)) \<and>
   (offset query = 0 \<and> limit query = 0 \<longrightarrow>
      Count N query h = runWithCursor N (typeId query) True (count N query) 0 h \<and>
      Remove N query h = runWithCursor N (typeId query) False (remove N query) 0 h \<and>
      take (Suc (length h)) (snd (Count N query h)) = h @ [Call_cursor (typeId query) True] \<and>
      take (Suc (length h)) (snd (Remove N query h)) = h @ [Call_cursor (typeId query) False] \<and>
      (\<forall>cursor. cQuery query \<noteq> None \<and> cursor_for N h (typeId query) True = Some cursor \<longrightarrow>
         snd (Count N query h) =
           h @ [Call_cursor (typeId query) True, Call_query_count (cQuery query) cursor]) \<and>
      (\<forall>cursor. cQuery query \<noteq> None \<and> cursor_for N h (typeId query) False = Some cursor \<longrightarrow>
         snd (Remove N query h) =
           h @ [Call_cursor (typeId query) False, Call_query_remove (cQuery query) cursor]))"
  by (auto simp: Count_def Remove_def runWithCursor_def count_def remove_def Let_def
      split: option.splits prod.splits)

theorem Count_Remove_options_witness:
  "Count native_ok (Offset query7 1) [] =
     ((0, Some (Errorf ''limit/offset are not supported by Count at this moment'')), []) \<and>
   Remove native_ok (Limit query7 5) [] =
     ((0, Some (Errorf ''limit/offset are not supported by Remove at this moment'')), []) \<and>
   snd (Count native_ok query7 []) = [Call_cursor 1 True, Call_query_count (Some 7) 1] \<and>
   snd (Remove native_ok query7 []) = [Call_cursor 1 False, Call_query_remove (Some 7) 1]"
proof -
  have a: "offset (Offset query7 1) \<noteq> 0" "limit (Limit query7 5) \<noteq> 0"
    by (simp_all add: Offset_def Limit_def query7_def)
  have b: "offset query7 = 0" "limit query7 = 0" "cQuery query7 = Some 7" "typeId query7 = 1"
    by (simp_all add: query7_def)
  have c: "cursor_for native_ok [] 1 True = Some 1" "cursor_for native_ok [] 1 False = Some 1"
    by (simp_all add: native_ok_def)
  from a Count_Remove_options [of "Offset query7 1" native_ok "[]"]
  have 1: "Count native_ok (Offset query7 1) [] =
     ((0, Some (Errorf ''limit/offset are not supported by Count at this moment'')), [])"
    by blast
  from a Count_Remove_options [of "Limit query7 5" native_ok "[]"]
  have 2: "Remove native_ok (Limit query7 5) [] =
     ((0, Some (Errorf ''limit/offset are not supported by Remove at this moment'')), [])"
    by blast
  from b(1,2) Count_Remove_options [of query7 native_ok "[]"]
  have k: "\<forall>cursor. cQuery query7 \<noteq> None \<and>
        cursor_for native_ok [] (typeId query7) True = Some cursor \<longrightarrow>
      snd (Count native_ok query7 []) =
        [] @ [Call_cursor (typeId query7) True, Call_query_count (cQuery query7) cursor]"
    and r: "\<forall>cursor. cQuery query7 \<noteq> None \<and>
        cursor_for native_ok [] (typeId query7) False = Some cursor \<longrightarrow>
      snd (Remove native_ok query7 []) =
        [] @ [Call_cursor (typeId query7) False, Call_query_remove (cQuery query7) cursor]"
    by blast+
  from k b c
  have 3: "snd (Count native_ok query7 []) = [Call_cursor 1 True, Call_query_count (Some 7) 1]"
    by simp
  from r b c
  have 4: "snd (Remove native_ok query7 []) = [Call_cursor 1 False, Call_query_remove (Some 7) 1]"
    by simp
  from 1 2 3 4 show ?thesis by blast
qed

lemma unat_of_nat_le: "unat (of_nat n :: uint64) \<le> n"
  by (simp add: unat_of_nat)

lemma paginate_panics: "len ids < unat (offset query) \<Longrightarrow> paginate query ids = Panics"
proof -
  assume short: "len ids < unat (offset query)"
  let ?len = "of_nat (len ids) :: uint64"
  let ?e = "if limit query \<noteq> 0 \<and> offset query + limit query < ?len
            then offset query + limit query else ?len"
  have "unat ?e \<le> unat ?len"
    by (auto simp: word_less_nat_alt)
  moreover have "unat ?len \<le> len ids" by (rule unat_of_nat_le)
  ultimately have "unat ?e < unat (offset query)" using short by linarith
  then have "slice_expr ids (offset query) ?e = Panics"
    by (simp add: slice_expr_def)
  then show ?thesis by (simp add: paginate_def Let_def)
qed

lemma runWithCursor_findIds_error:
  "runWithCursor N tid ro (findIds N query) None h = ((ids, Some e), h') \<Longrightarrow> ids = None"
  by (auto simp: runWithCursor_def findIds_def Let_def split: option.splits if_splits)

text \<open>Claim C9. The guard of \<^verbatim>\<open>FindIds\<close> reads \<^verbatim>\<open>offset != 0 || (limit != 0 && err == nil && ids != nil)\<close>.
  Let \<open>ids\<close> and \<open>err\<close> be what the cursor-scoped \<^verbatim>\<open>findIds\<close> left. When the offset is not
  0 the slicing branch is taken whatever \<open>err\<close> and \<open>ids\<close> are, a native error and a nil list
  included. When the offset is 0 it is taken only if the limit is not 0, \<open>err\<close> is nil and
  \<open>ids\<close> is not nil; otherwise \<open>ids\<close> and \<open>err\<close> are returned as they are.\<close>

theorem FindIds_guard:
  "runWithCursor N (typeId query) True (findIds N query) None h = ((ids, err), h') \<Longrightarrow>
     (offset query \<noteq> 0 \<longrightarrow> FindIds N query h = (paginate query ids, h')) \<and>
     (offset query = 0 \<longrightarrow>
        FindIds N query h =
          (if limit query \<noteq> 0 \<and> err = None \<and> ids \<noteq> None then paginate query ids
           else Returns (ids, err), h'))"
  by (simp add: FindIds_def)

text \<open>Claim C10. \<^verbatim>\<open>FindIds\<close> is not total: with a non-zero offset it panics whenever the
  list the cursor-scoped \<^verbatim>\<open>findIds\<close> left is shorter than the offset. That covers every
  failure of the retrieval (a closed query, a failed cursor acquisition, a failed native
  call): the list is then nil, of length 0, and the call panics where it had an error to
  return.\<close>

theorem FindIds_panics:
  "runWithCursor N (typeId query) True (findIds N query) None h = ((ids, err), h') \<Longrightarrow>
     offset query \<noteq> 0 \<Longrightarrow>
     (len ids < unat (offset query) \<longrightarrow> FindIds N query h = (Panics, h')) \<and>
     (err \<noteq> None \<longrightarrow> ids = None \<and> FindIds N query h = (Panics, h'))"
proof -
  assume r: "runWithCursor N (typeId query) True (findIds N query) None h = ((ids, err), h')"
    and off: "offset query \<noteq> 0"
  have F: "FindIds N query h = (paginate query ids, h')"
    using r off by (simp add: FindIds_def)
  have pos: "0 < unat (offset query)"
    using off by (simp add: unat_gt_0)
  have 1: "len ids < unat (offset query) \<longrightarrow> FindIds N query h = (Panics, h')"
    using F by (simp add: paginate_panics)
  have 2: "err \<noteq> None \<longrightarrow> ids = None \<and> FindIds N query h = (Panics, h')"
  proof
    assume "err \<noteq> None"
    then obtain e where "err = Some e" by auto
    with r have n: "ids = None" by (auto dest: runWithCursor_findIds_error)
    then have "len ids < unat (offset query)" using pos by (simp add: len_def)
    with 1 n show "ids = None \<and> FindIds N query h = (Panics, h')" by simp
  qed
  from 1 2 show ?thesis by simp
qed


lemma run_failing:
  "runWithCursor native_failing 1 True (findIds native_failing (q\<lparr>typeId := 1, cQuery := Some 7\<rparr>)) None [] =
     ((None, Some createError), [Call_cursor 1 True, Call_query_find_ids (Some 7) 1])"
  by (simp add: runWithCursor_def findIds_def native_failing_def)

lemma run_ok:
  "runWithCursor native_ok 1 True (findIds native_ok (q\<lparr>typeId := 1, cQuery := Some 7\<rparr>)) None [] =
     ((Some [0, 1, 2, 3, 4, 5, 6, 7, 8, 9], None),
      [Call_cursor 1 True, Call_query_find_ids (Some 7) 1])"
  by (simp add: runWithCursor_def findIds_def native_ok_def)

lemma query7_upd: "query7\<lparr>typeId := 1, cQuery := Some 7\<rparr> = query7"
  "(Offset query7 a)\<lparr>typeId := 1, cQuery := Some 7\<rparr> = Offset query7 a"
  "(Limit query7 b)\<lparr>typeId := 1, cQuery := Some 7\<rparr> = Limit query7 b"
  "(Limit (Offset query7 a) b)\<lparr>typeId := 1, cQuery := Some 7\<rparr> = Limit (Offset query7 a) b"
  by (simp_all add: query7_def Offset_def Limit_def)

lemma query7_fields:
  "typeId (Offset query7 a) = 1" "typeId (Limit query7 b) = 1"
  "typeId (Limit (Offset query7 a) b) = 1" "typeId query7 = 1"
  "offset (Offset query7 a) = a" "offset (Limit query7 b) = 0"
  "offset (Limit (Offset query7 a) b) = a" "offset query7 = 0"
  "limit (Offset query7 a) = 0" "limit (Limit query7 b) = b"
  "limit (Limit (Offset query7 a) b) = b" "limit query7 = 0"
  by (simp_all add: query7_def Offset_def Limit_def)

theorem FindIds_guard_witness:
  "FindIds native_failing (Offset query7 1) [] =
     (paginate (Offset query7 1) None, [Call_cursor 1 True, Call_query_find_ids (Some 7) 1]) \<and>
   FindIds native_failing (Limit query7 4) [] =
     (Returns (None, Some createError), [Call_cursor 1 True, Call_query_find_ids (Some 7) 1]) \<and>
   FindIds native_ok (Limit query7 4) [] =
     (paginate (Limit query7 4) (Some [0, 1, 2, 3, 4, 5, 6, 7, 8, 9]),
      [Call_cursor 1 True, Call_query_find_ids (Some 7) 1])"
proof -
  have a: "runWithCursor native_failing (typeId (Offset query7 1)) True
             (findIds native_failing (Offset query7 1)) None [] =
           ((None, Some createError), [Call_cursor 1 True, Call_query_find_ids (Some 7) 1])"
    using run_failing [of "Offset query7 1"] by (simp add: query7_upd query7_fields)
  have b: "runWithCursor native_failing (typeId (Limit query7 4)) True
             (findIds native_failing (Limit query7 4)) None [] =
           ((None, Some createError), [Call_cursor 1 True, Call_query_find_ids (Some 7) 1])"
    using run_failing [of "Limit query7 4"] by (simp add: query7_upd query7_fields)
  have c: "runWithCursor native_ok (typeId (Limit query7 4)) True
             (findIds native_ok (Limit query7 4)) None [] =
           ((Some [0, 1, 2, 3, 4, 5, 6, 7, 8, 9], None),
            [Call_cursor 1 True, Call_query_find_ids (Some 7) 1])"
    using run_ok [of "Limit query7 4"] by (simp add: query7_upd query7_fields)
  show ?thesis
    using FindIds_guard [OF a] FindIds_guard [OF b] FindIds_guard [OF c]
    by (simp add: query7_fields)
qed

theorem FindIds_panics_witness:
  "FindIds native_ok (Limit (Offset query7 12) 3) [] =
     (Panics, [Call_cursor 1 True, Call_query_find_ids (Some 7) 1]) \<and>
   FindIds native_failing (Offset query7 1) [] =
     (Panics, [Call_cursor 1 True, Call_query_find_ids (Some 7) 1])"
proof -
  have a: "runWithCursor native_ok (typeId (Limit (Offset query7 12) 3)) True
             (findIds native_ok (Limit (Offset query7 12) 3)) None [] =
           ((Some [0, 1, 2, 3, 4, 5, 6, 7, 8, 9], None),
            [Call_cursor 1 True, Call_query_find_ids (Some 7) 1])"
    using run_ok [of "Limit (Offset query7 12) 3"] by (simp add: query7_upd query7_fields)
  have b: "runWithCursor native_failing (typeId (Offset query7 1)) True
             (findIds native_failing (Offset query7 1)) None [] =
           ((None, Some createError), [Call_cursor 1 True, Call_query_find_ids (Some 7) 1])"
    using run_failing [of "Offset query7 1"] by (simp add: query7_upd query7_fields)
  have a0: "offset (Limit (Offset query7 12) 3) \<noteq> 0" and b0: "offset (Offset query7 1) \<noteq> 0"
    by (simp_all add: query7_fields)
  show ?thesis
    using FindIds_panics [OF a a0] FindIds_panics [OF b b0]
    by (simp add: query7_fields len_def)
qed

lemma closed_after_Close:
  "Close N0 query0 h0 = (e, query1, h1) \<Longrightarrow> cQuery (Limit (Offset query1 off) lim) = None"
  by (auto simp: Close_def Let_def Limit_def Offset_def split: if_splits)

lemma Limit_Offset_fields:
  "offset (Limit (Offset q off) lim) = off" "limit (Limit (Offset q off) lim) = lim"
  "typeId (Limit (Offset q off) lim) = typeId q"
  by (simp_all add: Limit_def Offset_def)

text \<open>Claim C2, as the code has it. Take the query a \<^verbatim>\<open>Close\<close> leaves, with any offset and
  limit set on it afterwards. \<^verbatim>\<open>Describe\<close> returns the closed-query error and makes no call.
  Once the cursor is acquired, \<^verbatim>\<open>Find\<close>, \<^verbatim>\<open>FindIds\<close> with offset 0, and \<^verbatim>\<open>Count\<close> and
  \<^verbatim>\<open>Remove\<close> with offset and limit both 0 return the closed-query error, the cursor
  acquisition being the only call made. With a non-zero offset or limit, \<^verbatim>\<open>Count\<close> and
  \<^verbatim>\<open>Remove\<close> return their "limit/offset are not supported" error first. Nothing is said
  here of the parameter setters and of \<^verbatim>\<open>FindIds\<close> with a non-zero offset.\<close>

theorem closed_query_operations:
  assumes "Close N0 query0 h0 = (e, query1, h1)"
    and "query = Limit (Offset query1 off) lim"
  shows
    "Describe N query h = (([], Some errorClosed), h) \<and>
     (cursor_for N h (typeId query) True \<noteq> None \<longrightarrow>
        Find N query h =
          ((int_interface 0, Some errorClosed), h @ [Call_cursor (typeId query) True])) \<and>
     (cursor_for N h (typeId query) True \<noteq> None \<and> off = 0 \<longrightarrow>
        FindIds N query h =
          (Returns (None, Some errorClosed), h @ [Call_cursor (typeId query) True])) \<and>
     (cursor_for N h (typeId query) True \<noteq> None \<and> off = 0 \<and> lim = 0 \<longrightarrow>
        Count N query h = ((0, Some errorClosed), h @ [Call_cursor (typeId query) True])) \<and>
     (cursor_for N h (typeId query) False \<noteq> None \<and> off = 0 \<and> lim = 0 \<longrightarrow>
        Remove N query h = ((0, Some errorClosed), h @ [Call_cursor (typeId query) False])) \<and>
     (off \<noteq> 0 \<or> lim \<noteq> 0 \<longrightarrow>
        Count N query h =
          ((0, Some (Errorf ''limit/offset are not supported by Count at this moment'')), h) \<and>
        Remove N query h =
          ((0, Some (Errorf ''limit/offset are not supported by Remove at this moment'')), h))"
proof -
  have nil: "cQuery query = None"
    using assms by (simp add: closed_after_Close)
  have f: "offset query = off" "limit query = lim"
    using assms(2) by (simp_all add: Limit_Offset_fields)
  have 1: "Describe N query h = (([], Some errorClosed), h)"
    using nil by (simp add: Describe_def)
  have 2: "cursor_for N h (typeId query) True \<noteq> None \<longrightarrow>
        Find N query h =
          ((int_interface 0, Some errorClosed), h @ [Call_cursor (typeId query) True])"
    using nil by (auto simp: Find_def runWithCursor_def find_def)
  have 3: "cursor_for N h (typeId query) True \<noteq> None \<and> off = 0 \<longrightarrow>
        FindIds N query h =
          (Returns (None, Some errorClosed), h @ [Call_cursor (typeId query) True])"
    using nil f by (auto simp: FindIds_def runWithCursor_def findIds_def)
  have 4: "cursor_for N h (typeId query) True \<noteq> None \<and> off = 0 \<and> lim = 0 \<longrightarrow>
        Count N query h = ((0, Some errorClosed), h @ [Call_cursor (typeId query) True])"
    using nil f by (auto simp: Count_def runWithCursor_def count_def)
  have 5: "cursor_for N h (typeId query) False \<noteq> None \<and> off = 0 \<and> lim = 0 \<longrightarrow>
        Remove N query h = ((0, Some errorClosed), h @ [Call_cursor (typeId query) False])"
    using nil f by (auto simp: Remove_def runWithCursor_def remove_def)
  have 6: "off \<noteq> 0 \<or> lim \<noteq> 0 \<longrightarrow>
        Count N query h =
          ((0, Some (Errorf ''limit/offset are not supported by Count at this moment'')), h) \<and>
        Remove N query h =
          ((0, Some (Errorf ''limit/offset are not supported by Remove at this moment'')), h)"
    using f by (auto simp: Count_def Remove_def)
  from 1 2 3 4 5 6 show ?thesis by blast
qed

lemma Close_query7:
  "Close native_ok query7 [] = (None, query7\<lparr>cQuery := None\<rparr>, [Call_query_close (Some 7)])"
  by (simp add: Close_def native_ok_def query7_def)

theorem closed_query_operations_witness:
  "Describe native_ok (Limit (Offset (query7\<lparr>cQuery := None\<rparr>) 0) 0) [] =
     (([], Some errorClosed), []) \<and>
   Find native_ok (Limit (Offset (query7\<lparr>cQuery := None\<rparr>) 0) 0) [] =
     ((int_interface 0, Some errorClosed), [Call_cursor 1 True]) \<and>
   FindIds native_ok (Limit (Offset (query7\<lparr>cQuery := None\<rparr>) 0) 0) [] =
     (Returns (None, Some errorClosed), [Call_cursor 1 True]) \<and>
   Count native_ok (Limit (Offset (query7\<lparr>cQuery := None\<rparr>) 0) 0) [] =
     ((0, Some errorClosed), [Call_cursor 1 True]) \<and>
   Remove native_ok (Limit (Offset (query7\<lparr>cQuery := None\<rparr>) 0) 0) [] =
     ((0, Some errorClosed), [Call_cursor 1 False]) \<and>
   Remove native_ok (Limit (Offset (query7\<lparr>cQuery := None\<rparr>) 0) 2) [] =
     ((0, Some (Errorf ''limit/offset are not supported by Remove at this moment'')), [])"
proof -
  have c: "cursor_for native_ok [] t ro \<noteq> None" for t ro
    by (simp add: native_ok_def)
  have t: "typeId (Limit (Offset (query7\<lparr>cQuery := None\<rparr>) a) b) = 1" for a b
    by (simp add: Limit_def Offset_def query7_def)
  show ?thesis
    using closed_query_operations [OF Close_query7 refl, where off = 0 and lim = 0
        and N = native_ok and h = "[]"]
      closed_query_operations [OF Close_query7 refl, where off = 0 and lim = 2
        and N = native_ok and h = "[]"] c
    by (simp add: t)
qed

text \<open>Claim C2 as the spec states it fails on the query that \<^verbatim>\<open>Close\<close> leaves of the open
  query on handle 7: with offset 1, \<^verbatim>\<open>Count\<close> returns the "limit/offset are not supported"
  error, which is not the closed-query error; and \<^verbatim>\<open>SetStringParams\<close> with one value hands
  the nil handle to \<^verbatim>\<open>obx_query_string_param\<close> and returns what that call decides, here
  success.\<close>

theorem closed_query_counterexample:
  "Count native_ok (Offset (fst (snd (Close native_ok query7 []))) 1) [] =
     ((0, Some (Errorf ''limit/offset are not supported by Count at this moment'')), []) \<and>
   Errorf ''limit/offset are not supported by Count at this moment'' \<noteq> errorClosed \<and>
   cQuery (fst (snd (Close native_ok query7 []))) = None \<and>
   SetStringParams native_ok (fst (snd (Close native_ok query7 []))) prop1 [''x''] [] =
     (None, [Call_query_string_param None 1 2 ''x''])"
  unfolding Close_query7
  by (simp add: Count_def Offset_def query7_def errorClosed_def
      SetStringParams_def native_param_def native_ok_def prop1_def)

lemma FindIds_ten:
  "FindIds native_ok (Limit (Offset query7 a) b) [] =
     (if a \<noteq> 0 \<or> b \<noteq> 0 then paginate (Limit (Offset query7 a) b) (Some [0, 1, 2, 3, 4, 5, 6, 7, 8, 9])
      else Returns (Some [0, 1, 2, 3, 4, 5, 6, 7, 8, 9], None),
      [Call_cursor 1 True, Call_query_find_ids (Some 7) 1])"
  by (simp add: FindIds_def runWithCursor_def findIds_def native_ok_def query7_def
      Limit_def Offset_def)

lemma FindIds_examples:
  "FindIds native_ok (Limit (Offset query7 3) 4) [] =
     (Returns (Some [3, 4, 5, 6], None), [Call_cursor 1 True, Call_query_find_ids (Some 7) 1])"
  "FindIds native_ok (Limit (Offset query7 8) 5) [] =
     (Returns (Some [8, 9], None), [Call_cursor 1 True, Call_query_find_ids (Some 7) 1])"
  "FindIds native_ok (Limit (Offset query7 0) 0) [] =
     (Returns (Some [0, 1, 2, 3, 4, 5, 6, 7, 8, 9], None),
      [Call_cursor 1 True, Call_query_find_ids (Some 7) 1])"
  unfolding FindIds_ten
  by (simp_all add: paginate_def slice_expr_def len_def Limit_def Offset_def query7_def)

text \<open>Pagination where it is in range: the list has at least \<open>offset\<close> entries and
  \<open>offset + limit\<close> does not wrap around 64 bits. Then the first \<open>offset\<close> entries are
  skipped and the rest is capped to \<open>limit\<close> entries (0: no cap), in the order received.\<close>

lemma paginate_in_range:
  assumes "unat (offset query) \<le> length xs" and "length xs < 2 ^ 64"
    and "unat (offset query) + unat (limit query) < 2 ^ 64"
  shows "paginate query (Some xs) =
    Returns (Some (if limit query = 0 then drop (unat (offset query)) xs
                   else take (unat (limit query)) (drop (unat (offset query)) xs)), None)"
proof -
  let ?len = "of_nat (length xs) :: uint64"
  have n: "unat ?len = length xs"
    using assms(2) by (simp add: unat_of_nat)
  have s: "unat (offset query + limit query) = unat (offset query) + unat (limit query)"
    using assms(3) by (simp add: unat_word_ariths)
  show ?thesis
  proof (cases "limit query \<noteq> 0 \<and> offset query + limit query < ?len")
    case True
    then have "unat (offset query) + unat (limit query) < length xs"
      using n s by (simp add: word_less_nat_alt)
    then show ?thesis
      using True s by (simp add: paginate_def slice_expr_def len_def Let_def)
  next
    case False
    then have "limit query = 0 \<or> length xs \<le> unat (offset query) + unat (limit query)"
      using n s by (auto simp: word_less_nat_alt)
    then show ?thesis
      using False n assms(1) by (auto simp: paginate_def slice_expr_def len_def Let_def)
  qed
qed

lemma FindIds_in_range:
  assumes "runWithCursor N (typeId query) True (findIds N query) None h = ((Some xs, None), h')"
    and "unat (offset query) \<le> length xs" and "length xs < 2 ^ 64"
    and "unat (offset query) + unat (limit query) < 2 ^ 64"
  shows "FindIds N query h =
    (Returns (Some (if limit query = 0 then drop (unat (offset query)) xs
                    else take (unat (limit query)) (drop (unat (offset query)) xs)), None), h')"
  using assms(1) paginate_in_range [OF assms(2-4)]
  by (auto simp: FindIds_def)

text \<open>Claim C4 says that after every successful retrieval \<^verbatim>\<open>FindIds\<close> skips the first
  \<open>offset\<close> entries and caps the rest to \<open>limit\<close> entries. The three examples of the claim
  hold (\<open>FindIds_examples\<close>), and so does the rule whenever the list has at least \<open>offset\<close>
  entries and \<open>offset + limit\<close> does not wrap (\<open>FindIds_in_range\<close>). It fails on the ten
  identifiers 0 to 9 with offset 11 and limit 0, where skipping leaves the empty list and the
  code panics; and with offset 5 and limit \<open>2^64 - 3\<close>, where the rule gives the identifiers 5
  to 9 and the sum wraps around to 2, so that the code slices \<^verbatim>\<open>ids[5:2]\<close> and panics.\<close>

theorem FindIds_offset_beyond_end:
  "FindIds native_ok (Limit (Offset query7 11) 0) [] =
     (Panics, [Call_cursor 1 True, Call_query_find_ids (Some 7) 1]) \<and>
   FindIds native_ok (Limit (Offset query7 5) (- 3)) [] =
     (Panics, [Call_cursor 1 True, Call_query_find_ids (Some 7) 1])"
  unfolding FindIds_ten
  by (simp add: paginate_def slice_expr_def len_def Limit_def Offset_def query7_def)

theorem FindIds_offset_beyond_end_witness:
  "fst (FindIds native_ok (Limit (Offset query7 11) 0) []) = Panics \<and>
   fst (FindIds native_ok (Limit (Offset query7 5) (- 3)) []) = Panics"
  using FindIds_offset_beyond_end by simp

section \<open>Properties of the generated code\<close>

lemmas props_defs = prop_Id_def prop_Count_def prop_Letter_def prop_Text_def prop_Data_def
  prop_Done_def prop_Size_def prop_Tags_def

lemmas chars_defs = StringCamel_def StringTitle_def is_ascii_def isSeparator_def
  to_upper_def to_lower_def is_lower_def is_upper_def is_digit_def





lemma length_title_from: "length (title_from prev s) = length s"
  by (induction s arbitrary: prev) simp_all

lemma StringCamel_nonempty:
  "s \<noteq> [] \<Longrightarrow> is_ascii s \<Longrightarrow> \<exists>c. StringCamel s = Some (Returns c)"
  by (cases s) (simp_all add: StringCamel_def StringTitle_def length_title_from)

lemma Var_offset_in_Flatten:
  "Var_offset n f e \<in> set (Flatten entity) \<Longrightarrow>
   \<exists>q\<in>set (Properties entity). n = Name q \<and> (GoType q = ''string'' \<or> GoType q = ''[]byte'')"
  by (auto simp: Flatten_def offset_stmts_def slot_stmt_def split: if_splits)

lemma exec_stmts_Raw:
  "\<forall>s\<in>set ss. (\<exists>n f m. s = Var_offset n f (Ent_field m)) \<or> (\<exists>t. s = Raw t) \<Longrightarrow>
   \<exists>t. Raw t \<in> set ss \<Longrightarrow>
   exec_stmts w ent ident (ss @ rest) b = Inl Does_not_compile"
proof (induction ss arbitrary: b)
  case Nil
  then show ?case by simp
next
  case (Cons s ss)
  show ?case
  proof (cases "\<exists>t. s = Raw t")
    case True
    then show ?thesis by (auto simp: exec_stmt_def)
  next
    case False
    then obtain n f m where s: "s = Var_offset n f (Ent_field m)"
      using Cons.prems(1) by auto
    have later: "\<exists>t. Raw t \<in> set ss"
      using Cons.prems(2) s by auto
    have rest: "\<forall>s\<in>set ss. (\<exists>n f m. s = Var_offset n f (Ent_field m)) \<or> (\<exists>t. s = Raw t)"
      using Cons.prems(1) by simp
    have step: "exec_stmt w ent ident s b = Inl Does_not_compile \<or>
      (\<exists>b'. exec_stmt w ent ident s b = Inr b')"
      unfolding s
      by (auto simp: exec_stmt_def eval_arg_def create_offset_def
          split: option.splits goval.splits)
    then show ?thesis
      using Cons.IH [OF rest later] by auto
  qed
qed

lemma offset_stmts_forms:
  "s \<in> set (concat (map offset_stmts ps)) \<Longrightarrow>
   (\<exists>n f m. s = Var_offset n f (Ent_field m)) \<or> (\<exists>t. s = Raw t)"
  by (auto simp: offset_stmts_def split: if_splits)

lemma run_Flatten_Raw:
  assumes "Raw t \<in> set (concat (map offset_stmts (Properties entity)))"
  shows "run_Flatten w entity ent ident = Inl Does_not_compile"
proof -
  let ?off = "concat (map offset_stmts (Properties entity))"
  let ?rest = "[StartObject (LastPropertyId_GetId entity)] @
     map (slot_stmt entity) (Properties entity)"
  have f: "\<forall>s\<in>set ?off. (\<exists>n f m. s = Var_offset n f (Ent_field m)) \<or> (\<exists>t. s = Raw t)"
    using offset_stmts_forms by blast
  have r: "\<exists>t. Raw t \<in> set ?off"
    using assms by blast
  have e: "exec_stmts w ent ident (?off @ ?rest) b = Inl Does_not_compile" for b
    using f r by (rule exec_stmts_Raw)
  show ?thesis
    unfolding run_Flatten_def Flatten_def
    using e by (simp add: exec_stmt_def)
qed

text \<open>What the template does with a variable-length property it has no rule for, for every
  entity. Let an entity with a non-empty ASCII name and distinct property names have a
  property with an offset slot (\<open>FbType\<close> \<^verbatim>\<open>UOffsetT\<close>) whose Go type is neither \<^verbatim>\<open>string\<close>
  nor \<^verbatim>\<open>[]byte\<close>. Executing the template gives output. The body of \<^verbatim>\<open>Flatten\<close> holds, where
  the offset of the property would be created, the text "TODO offset creation for the (name),
  type $(Go type) is not implemented", and it holds the slot write that reads the offset
  variable of the property, which no statement of the body declares. The body is not Go:
  on any record it does not compile.\<close>

lemma placeholder_for_unknown_offset_type:
  assumes "p \<in> set (Properties entity)" and "FbType p = ''UOffsetT''"
    and "GoType p \<noteq> ''string''" and "GoType p \<noteq> ''[]byte''"
    and "EntityName entity \<noteq> []" and "is_ascii (EntityName entity)"
    and "distinct (map Name (Properties entity))"
  shows "\<exists>b. BindingTemplate entity = Some (Inr b) \<and>
    Flatten_body b = Flatten entity \<and>
    Raw (''TODO offset creation for the '' @ Name p @ '', type $'' @ GoType p @
         '' is not implemented'') \<in> set (Flatten_body b) \<and>
    PrependSlot ''UOffsetT'' (FbSlot p) (Offset_var (Name p)) Lit_0 \<in> set (Flatten_body b) \<and>
    (\<forall>f e. Var_offset (Name p) f e \<notin> set (Flatten_body b)) \<and>
    run_Flatten w entity ent ident = Inl Does_not_compile"
proof -
  from assms(5,6) obtain c where c: "StringCamel (EntityName entity) = Some (Returns c)"
    using StringCamel_nonempty by blast
  let ?b = "\<lparr>EntityInfo = c @ ''EntityInfo'', GetId = Name (IdProperty entity),
    Flatten_body = Flatten entity, ToObject_fields = ToObject entity\<rparr>"
  let ?todo = "Raw (''TODO offset creation for the '' @ Name p @ '', type $'' @ GoType p @
         '' is not implemented'')"
  have 1: "BindingTemplate entity = Some (Inr ?b)"
    using c by (simp add: BindingTemplate_def)
  have o: "offset_stmts p = [?todo]"
    using assms(2-4) by (simp add: offset_stmts_def)
  have r: "?todo \<in> set (concat (map offset_stmts (Properties entity)))"
    using assms(1) o by (auto intro!: bexI [of _ p])
  then have 2: "?todo \<in> set (Flatten entity)"
    by (simp add: Flatten_def)
  have "slot_stmt entity p = PrependSlot ''UOffsetT'' (FbSlot p) (Offset_var (Name p)) Lit_0"
    using assms(2) by (simp add: slot_stmt_def)
  then have 3: "PrependSlot ''UOffsetT'' (FbSlot p) (Offset_var (Name p)) Lit_0 \<in> set (Flatten entity)"
    using assms(1) by (force simp: Flatten_def)
  have 4: "Var_offset (Name p) f e \<notin> set (Flatten entity)" for f e
  proof
    assume "Var_offset (Name p) f e \<in> set (Flatten entity)"
    then obtain q where q: "q \<in> set (Properties entity)" "Name p = Name q"
      and g: "GoType q = ''string'' \<or> GoType q = ''[]byte''"
      using Var_offset_in_Flatten by blast
    have "inj_on Name (set (Properties entity))"
      using assms(7) by (simp add: distinct_map)
    then have "q = p"
      using q assms(1) by (auto dest: inj_onD)
    then show False using g assms(3,4) by simp
  qed
  have 5: "run_Flatten w entity ent ident = Inl Does_not_compile"
    using r by (rule run_Flatten_Raw)
  from 1 2 3 4 5 show ?thesis by simp
qed

lemma BindingTemplate_Tagged:
  "BindingTemplate Tagged =
     Some (Inr \<lparr>EntityInfo = ''taggedEntityInfo'', GetId = ''Id'',
          Flatten_body =
            [Ent_cast ''Tagged'',
             Raw ''TODO offset creation for the Tags, type $[]string is not implemented'',
             StartObject 2,
             PrependSlot ''Uint64'' 0 Id_arg Lit_0,
             PrependSlot ''UOffsetT'' 1 (Offset_var ''Tags'') Lit_0],
          ToObject_fields =
            [(''Id'', GetSlot ''Uint64'' 4 Lit_0), (''Tags'', GetSlot ''[]String'' 6 Lit_0)]\<rparr>)"
  by (simp add: BindingTemplate_def Tagged_def Flatten_def ToObject_def offset_stmts_def
      slot_stmt_def field_expr_def props_defs chars_defs)

text \<open>Claim C3 says that for a property of a type the generator has no encoding rule for,
  generation fails with a marked diagnostic and emits nothing, rather than putting
  placeholder code into the generated source. Take the entity \<open>Tagged\<close>, whose property
  \<^verbatim>\<open>Tags\<close> is a \<^verbatim>\<open>[]string\<close> with an offset slot. The template, where the type is met, does
  not fail on it: executing it gives output, and the body of \<^verbatim>\<open>Flatten\<close> in that output holds
  the text "TODO offset creation for the Tags, type $[]string is not implemented" where the
  offset would be created, followed by the slot write that reads \<^verbatim>\<open>offsetTags\<close>, which no
  statement declares. The body is not Go: on any record it does not compile.\<close>

theorem Tagged_placeholder_emitted:
  "BindingTemplate Tagged =
     Some (Inr \<lparr>EntityInfo = ''taggedEntityInfo'', GetId = ''Id'',
          Flatten_body =
            [Ent_cast ''Tagged'',
             Raw ''TODO offset creation for the Tags, type $[]string is not implemented'',
             StartObject 2,
             PrependSlot ''Uint64'' 0 Id_arg Lit_0,
             PrependSlot ''UOffsetT'' 1 (Offset_var ''Tags'') Lit_0],
          ToObject_fields =
            [(''Id'', GetSlot ''Uint64'' 4 Lit_0), (''Tags'', GetSlot ''[]String'' 6 Lit_0)]\<rparr>) \<and>
   (\<forall>f e. Var_offset ''Tags'' f e \<notin> set (Flatten Tagged)) \<and>
   run_Flatten w Tagged ent ident = Inl Does_not_compile"
proof -
  have h: "prop_Tags \<in> set (Properties Tagged)" "FbType prop_Tags = ''UOffsetT''"
    "GoType prop_Tags \<noteq> ''string''" "GoType prop_Tags \<noteq> ''[]byte''" "EntityName Tagged \<noteq> []"
    "is_ascii (EntityName Tagged)" "distinct (map Name (Properties Tagged))"
    by (simp_all add: Tagged_def props_defs is_ascii_def)
  from placeholder_for_unknown_offset_type [OF h, of w ent ident]
  have "(\<forall>f e. Var_offset ''Tags'' f e \<notin> set (Flatten Tagged)) \<and>
    run_Flatten w Tagged ent ident = Inl Does_not_compile"
    by (auto simp: prop_Tags_def)
  then show ?thesis
    using BindingTemplate_Tagged by simp
qed

theorem Tagged_placeholder_emitted_witness:
  "\<exists>b. BindingTemplate Tagged = Some (Inr b) \<and>
     Raw ''TODO offset creation for the Tags, type $[]string is not implemented'' \<in>
       set (Flatten_body b) \<and>
     PrependSlot ''UOffsetT'' 1 (Offset_var ''Tags'') Lit_0 \<in> set (Flatten_body b) \<and>
     run_Flatten 64 Tagged [(''Id'', GoInt 0)] 5 = Inl Does_not_compile"
  using Tagged_placeholder_emitted [of 64 "[(''Id'', GoInt 0)]" 5] by simp

lemma Flatten_Counter:
  "Flatten Counter =
     [Ent_cast ''Counter'', StartObject 3,
      PrependSlot ''Uint64'' 0 Id_arg Lit_0,
      PrependSlot ''Int32'' 1 (Conv ''int32'' (Ent_field ''Count'')) Lit_0,
      PrependSlot ''Int32'' 2 (Ent_field ''Letter'') Lit_0]"
  by (simp add: Flatten_def Counter_def offset_stmts_def slot_stmt_def props_defs)

lemma ToObject_Counter:
  "ToObject Counter =
     [(''Id'', GetSlot ''Uint64'' 4 Lit_0),
      (''Count'', Conv ''int'' (GetSlot ''Uint32'' 6 Lit_0)),
      (''Letter'', Conv ''rune'' (GetSlot ''Int32'' 8 Lit_0))]"
  by (simp add: ToObject_def Counter_def field_expr_def props_defs chars_defs)

lemma run_Flatten_Counter:
  "run_Flatten w Counter [(''Id'', GoInt 0), (''Count'', GoInt (- 1)), (''Letter'', GoInt (- 1))] 5 =
     Inr [(8, Scalar 32 4294967295), (6, Scalar 32 4294967295), (4, Scalar 64 5)]"
  unfolding run_Flatten_def Flatten_Counter
  by (simp add: exec_stmt_def eval_arg_def prepend_slot_def go_conv_def scalar_bits_def
      scalar_signed_def scalar_value_def mask_eq_exp_minus_1)

text \<open>Claim C1 says that decoding what \<^verbatim>\<open>Flatten\<close> encoded gives the record back, with the
  identifier substituted. It fails for an \<^verbatim>\<open>int\<close> field that is negative where \<^verbatim>\<open>int\<close> has
  64 bits: \<^verbatim>\<open>Flatten\<close> writes \<^verbatim>\<open>int32(ent.Count)\<close> into an \<^verbatim>\<open>Int32\<close> slot and \<^verbatim>\<open>ToObject\<close>
  reads \<^verbatim>\<open>int(table.GetUint32Slot(...))\<close>, so that the field \<open>-1\<close> comes back as 4294967295.
  The \<^verbatim>\<open>rune\<close> field beside it, read with \<^verbatim>\<open>GetInt32Slot\<close>, comes back as \<open>-1\<close>.\<close>

theorem roundtrip_negative_int:
  "roundtrip 64 Counter [(''Id'', GoInt 0), (''Count'', GoInt (- 1)), (''Letter'', GoInt (- 1))] 5 =
     Inr [(''Id'', GoInt 5), (''Count'', GoInt 4294967295), (''Letter'', GoInt (- 1))]"
  unfolding roundtrip_def run_Flatten_Counter run_ToObject_def ToObject_Counter
  by (simp add: get_slot_def go_conv_def scalar_bits_def scalar_signed_def scalar_value_def)

theorem roundtrip_negative_int_witness:
  "roundtrip 64 Counter [(''Id'', GoInt 0), (''Count'', GoInt (- 1)), (''Letter'', GoInt (- 1))] 5 \<noteq>
     Inr [(''Id'', GoInt 5), (''Count'', GoInt (- 1)), (''Letter'', GoInt (- 1))]"
  using roundtrip_negative_int by simp

lemma roundtrip_negative_int_32:
  "roundtrip 32 Counter [(''Id'', GoInt 0), (''Count'', GoInt (- 1)), (''Letter'', GoInt (- 1))] 5 =
     Inr [(''Id'', GoInt 5), (''Count'', GoInt (- 1)), (''Letter'', GoInt (- 1))]"
  unfolding roundtrip_def run_Flatten_Counter run_ToObject_def ToObject_Counter
  by (simp add: get_slot_def go_conv_def scalar_bits_def scalar_signed_def scalar_value_def)

lemma field_value_iff:
  "field_value intSize p v =
     (if GoType p = ''string'' then (\<exists>s. v = GoString s)
      else if GoType p = ''[]byte'' then (\<exists>bs. v = GoBytes bs)
      else if GoType p = ''int'' then
        (\<exists>x. v = GoInt x \<and> (if intSize = 32 then - (2 ^ 31) \<le> x else 0 \<le> x) \<and> x < 2 ^ 31)
      else if GoType p = ''uint'' then (\<exists>x. v = GoInt x \<and> 0 \<le> x \<and> x < 2 ^ 32)
      else scalar_value (FbType p) v)"
  by (cases v) (simp_all add: field_value_def)

lemma slot_rt_offset:
  assumes "FbType p = ''UOffsetT''" "GoType p = ''string'' \<or> GoType p = ''[]byte''"
    and "field_value w p v"
    and "started b = Some n" "FbSlot p < n" "FbvTableOffset p = 4 + 2 * FbSlot p"
    and "map_of (offsets b) (Name p) = Some (region v)"
  shows "\<exists>b'. exec_stmt w ent ident (slot_stmt e p) b = Inr b' \<and>
     eval_field w (slots b') (field_expr p) = Inr v \<and> frame b b' (FbvTableOffset p)"
  using assms
  by (auto simp: slot_stmt_def exec_stmt_def field_expr_def field_value_iff region_def
      get_slot_fbutils_def frame_def)

lemma slot_rt_bool:
  assumes "FbType p = ''Bool''" "GoType p = ''bool''" "Name p \<noteq> Name (IdProperty e)"
    and "field_value w p v" "map_of ent (Name p) = Some v"
    and "started b = Some n" "FbSlot p < n" "FbvTableOffset p = 4 + 2 * FbSlot p"
    and "map_of (slots b) (FbvTableOffset p) = None"
  shows "\<exists>b'. exec_stmt w ent ident (slot_stmt e p) b = Inr b' \<and>
     eval_field w (slots b') (field_expr p) = Inr v \<and> frame b b' (FbvTableOffset p)"
  using assms
  by (auto simp: slot_stmt_def exec_stmt_def field_expr_def field_value_iff eval_arg_def
      prepend_slot_def get_slot_def scalar_value_def scalar_bits_def scalar_signed_def frame_def
      split: goval.splits)

lemmas slot_sem = slot_stmt_def exec_stmt_def field_expr_def field_value_iff eval_arg_def
  prepend_slot_def get_slot_def scalar_value_def scalar_bits_def scalar_signed_def frame_def
  go_conv_def

lemma slot_rt_int:
  assumes "FbType p = ''Int32''" "GoType p = ''int''" "Name p \<noteq> Name (IdProperty e)"
    and "w = 32 \<or> w = 64"
    and "field_value w p v" "map_of ent (Name p) = Some v"
    and "started b = Some n" "FbSlot p < n" "FbvTableOffset p = 4 + 2 * FbSlot p"
    and "map_of (slots b) (FbvTableOffset p) = None"
  shows "\<exists>b'. exec_stmt w ent ident (slot_stmt e p) b = Inr b' \<and>
     eval_field w (slots b') (field_expr p) = Inr v \<and> frame b b' (FbvTableOffset p)"
proof -
  from assms(2,5) obtain x where v: "v = GoInt x" and hi: "x < 2 ^ 31"
    and lo: "if w = 32 then - (2 ^ 31) \<le> x else 0 \<le> x"
    by (auto simp: field_value_iff)
  have lo': "- (2 ^ 31) \<le> x" using lo by (auto split: if_splits)
  have c: "signed_take_bit 31 x = x"
    using lo' hi by (simp add: signed_take_bit_int_eq_self)
  have rt: "signed_take_bit (w - 1) (take_bit 32 (take_bit 32 x)) = x"
  proof (cases "w = 32")
    case True
    then show ?thesis using c by (simp add: signed_take_bit_take_bit)
  next
    case False
    then have "w = 64" "0 \<le> x" using assms(4) lo by auto
    then show ?thesis using hi
      by (simp add: take_bit_int_eq_self signed_take_bit_int_eq_self)
  qed
  show ?thesis
    using assms(1,2,3,6-10) v c rt lo' hi
    by (auto simp: slot_sem)
qed

lemma slot_rt_uint:
  assumes "FbType p = ''Uint32''" "GoType p = ''uint''" "Name p \<noteq> Name (IdProperty e)"
    and "w = 32 \<or> w = 64"
    and "field_value w p v" "map_of ent (Name p) = Some v"
    and "started b = Some n" "FbSlot p < n" "FbvTableOffset p = 4 + 2 * FbSlot p"
    and "map_of (slots b) (FbvTableOffset p) = None"
  shows "\<exists>b'. exec_stmt w ent ident (slot_stmt e p) b = Inr b' \<and>
     eval_field w (slots b') (field_expr p) = Inr v \<and> frame b b' (FbvTableOffset p)"
proof -
  from assms(2,5) obtain x where v: "v = GoInt x" and lo: "0 \<le> x" and hi: "x < 2 ^ 32"
    by (auto simp: field_value_iff)
  have c: "take_bit 32 x = x" "take_bit w x = x"
    using lo hi assms(4) by (auto simp: take_bit_int_eq_self)
  show ?thesis
    using assms(1,2,3,6-10) v c lo hi
    by (auto simp: slot_sem)
qed

lemma slot_rt_rune:
  assumes "FbType p = ''Int32''" "GoType p = ''rune''" "Name p \<noteq> Name (IdProperty e)"
    and "field_value w p v" "map_of ent (Name p) = Some v"
    and "started b = Some n" "FbSlot p < n" "FbvTableOffset p = 4 + 2 * FbSlot p"
    and "map_of (slots b) (FbvTableOffset p) = None"
  shows "\<exists>b'. exec_stmt w ent ident (slot_stmt e p) b = Inr b' \<and>
     eval_field w (slots b') (field_expr p) = Inr v \<and> frame b b' (FbvTableOffset p)"
proof -
  from assms(1,2,4) obtain x where v: "v = GoInt x" and lo: "- (2 ^ 31) \<le> x" and hi: "x < 2 ^ 31"
    by (auto simp: field_value_iff scalar_value_def scalar_bits_def scalar_signed_def
        split: goval.splits)
  have c: "signed_take_bit 31 x = x"
    using lo hi by (simp add: signed_take_bit_int_eq_self)
  have d: "signed_take_bit 31 (take_bit 32 x) = x"
    using c by (simp add: signed_take_bit_take_bit)
  show ?thesis
    using assms(1,2,3,5-9) v c d lo hi
    by (auto simp: slot_sem)
qed

lemma slot_rt_id:
  assumes "FbType p = ''Uint64''" "Name p = Name (IdProperty e)"
    and "GoType p = ''uint64''"
    and "started b = Some n" "FbSlot p < n" "FbvTableOffset p = 4 + 2 * FbSlot p"
    and "map_of (slots b) (FbvTableOffset p) = None"
  shows "\<exists>b'. exec_stmt w ent ident (slot_stmt e p) b = Inr b' \<and>
     eval_field w (slots b') (field_expr p) = Inr (GoInt (uint ident)) \<and>
     frame b b' (FbvTableOffset p)"
proof -
  have r: "0 \<le> uint ident" "uint ident < 2 ^ 64"
    using uint_lt2p [of ident] by simp_all
  then have c: "take_bit 64 (uint ident) = uint ident"
    by (simp add: take_bit_int_eq_self)
  have t: "StringTitle ''uint64'' = Some ''Uint64''"
    by (simp add: chars_defs)
  show ?thesis
    using assms r c t
    by (auto simp: slot_sem)
qed

lemma scalar_rt_signed:
  "- (2 ^ n) \<le> x \<Longrightarrow> x < 2 ^ n \<Longrightarrow> signed_take_bit n (take_bit (Suc n) x) = (x::int)"
  by (simp add: signed_take_bit_take_bit signed_take_bit_int_eq_self)

lemma slot_rt_other:
  assumes "StringTitle (GoType p) = Some (FbType p)"
    and "FbType p \<in> {''Byte'', ''Int8'', ''Int16'', ''Int32'', ''Int64'',
                        ''Uint8'', ''Uint16'', ''Uint32'', ''Uint64''}"
    and "GoType p \<noteq> ''bool''" "GoType p \<noteq> ''int''" "GoType p \<noteq> ''uint''"
      "GoType p \<noteq> ''rune''" "GoType p \<noteq> ''string''" "GoType p \<noteq> ''[]byte''"
    and "Name p \<noteq> Name (IdProperty e)"
    and "scalar_value (FbType p) v" "map_of ent (Name p) = Some v"
    and "started b = Some n" "FbSlot p < n" "FbvTableOffset p = 4 + 2 * FbSlot p"
    and "map_of (slots b) (FbvTableOffset p) = None"
  shows "\<exists>b'. exec_stmt w ent ident (slot_stmt e p) b = Inr b' \<and>
     eval_field w (slots b') (field_expr p) = Inr v \<and> frame b b' (FbvTableOffset p)"
proof -
  have u: "FbType p \<noteq> ''UOffsetT''" using assms(2) by auto
  have s: "slot_stmt e p = PrependSlot (FbType p) (FbSlot p) (Ent_field (Name p)) Lit_0"
    using u assms(3-5,9) by (simp add: slot_stmt_def)
  have f: "field_expr p = GetSlot (FbType p) (FbvTableOffset p) Lit_0"
    using assms(1,3-8) by (simp add: field_expr_def)
  have "\<exists>x. v = GoInt x"
    using assms(2,10) by (cases v) (auto simp: scalar_value_def scalar_bits_def)
  then obtain x where v: "v = GoInt x" ..
  consider (s8) "FbType p = ''Int8''" | (s16) "FbType p = ''Int16''" | (s32) "FbType p = ''Int32''"
    | (s64) "FbType p = ''Int64''" | (b) "FbType p = ''Byte''" | (u8) "FbType p = ''Uint8''"
    | (u16) "FbType p = ''Uint16''" | (u32) "FbType p = ''Uint32''" | (u64) "FbType p = ''Uint64''"
    using assms(2) by auto
  then show ?thesis
  proof cases
    case s8
    with assms(10) v have "- (2 ^ 7) \<le> x" "x < 2 ^ 7"
      by (simp_all add: scalar_value_def scalar_bits_def scalar_signed_def)
    then have "signed_take_bit 7 (take_bit 8 x) = x"
      using scalar_rt_signed [of 7 x] by simp
    then show ?thesis
      unfolding s f using s8 v assms(10-15)
      by (auto simp: exec_stmt_def eval_arg_def prepend_slot_def get_slot_def scalar_value_def
          scalar_bits_def scalar_signed_def frame_def)
  next
    case s16
    with assms(10) v have "- (2 ^ 15) \<le> x" "x < 2 ^ 15"
      by (simp_all add: scalar_value_def scalar_bits_def scalar_signed_def)
    then have "signed_take_bit 15 (take_bit 16 x) = x"
      using scalar_rt_signed [of 15 x] by simp
    then show ?thesis
      unfolding s f using s16 v assms(10-15)
      by (auto simp: exec_stmt_def eval_arg_def prepend_slot_def get_slot_def scalar_value_def
          scalar_bits_def scalar_signed_def frame_def)
  next
    case s32
    with assms(10) v have "- (2 ^ 31) \<le> x" "x < 2 ^ 31"
      by (simp_all add: scalar_value_def scalar_bits_def scalar_signed_def)
    then have "signed_take_bit 31 (take_bit 32 x) = x"
      using scalar_rt_signed [of 31 x] by simp
    then show ?thesis
      unfolding s f using s32 v assms(10-15)
      by (auto simp: exec_stmt_def eval_arg_def prepend_slot_def get_slot_def scalar_value_def
          scalar_bits_def scalar_signed_def frame_def)
  next
    case s64
    with assms(10) v have "- (2 ^ 63) \<le> x" "x < 2 ^ 63"
      by (simp_all add: scalar_value_def scalar_bits_def scalar_signed_def)
    then have "signed_take_bit 63 (take_bit 64 x) = x"
      using scalar_rt_signed [of 63 x] by simp
    then show ?thesis
      unfolding s f using s64 v assms(10-15)
      by (auto simp: exec_stmt_def eval_arg_def prepend_slot_def get_slot_def scalar_value_def
          scalar_bits_def scalar_signed_def frame_def)
  next
    case b
    with assms(10) v have "0 \<le> x" "x < 2 ^ 8"
      by (simp_all add: scalar_value_def scalar_bits_def scalar_signed_def)
    then have "take_bit 8 x = x" by (simp add: take_bit_int_eq_self)
    then show ?thesis
      unfolding s f using b v assms(10-15)
      by (auto simp: exec_stmt_def eval_arg_def prepend_slot_def get_slot_def scalar_value_def
          scalar_bits_def scalar_signed_def frame_def)
  next
    case u8
    with assms(10) v have "0 \<le> x" "x < 2 ^ 8"
      by (simp_all add: scalar_value_def scalar_bits_def scalar_signed_def)
    then have "take_bit 8 x = x" by (simp add: take_bit_int_eq_self)
    then show ?thesis
      unfolding s f using u8 v assms(10-15)
      by (auto simp: exec_stmt_def eval_arg_def prepend_slot_def get_slot_def scalar_value_def
          scalar_bits_def scalar_signed_def frame_def)
  next
    case u16
    with assms(10) v have "0 \<le> x" "x < 2 ^ 16"
      by (simp_all add: scalar_value_def scalar_bits_def scalar_signed_def)
    then have "take_bit 16 x = x" by (simp add: take_bit_int_eq_self)
    then show ?thesis
      unfolding s f using u16 v assms(10-15)
      by (auto simp: exec_stmt_def eval_arg_def prepend_slot_def get_slot_def scalar_value_def
          scalar_bits_def scalar_signed_def frame_def)
  next
    case u32
    with assms(10) v have "0 \<le> x" "x < 2 ^ 32"
      by (simp_all add: scalar_value_def scalar_bits_def scalar_signed_def)
    then have "take_bit 32 x = x" by (simp add: take_bit_int_eq_self)
    then show ?thesis
      unfolding s f using u32 v assms(10-15)
      by (auto simp: exec_stmt_def eval_arg_def prepend_slot_def get_slot_def scalar_value_def
          scalar_bits_def scalar_signed_def frame_def)
  next
    case u64
    with assms(10) v have "0 \<le> x" "x < 2 ^ 64"
      by (simp_all add: scalar_value_def scalar_bits_def scalar_signed_def)
    then have "take_bit 64 x = x" by (simp add: take_bit_int_eq_self)
    then show ?thesis
      unfolding s f using u64 v assms(10-15)
      by (auto simp: exec_stmt_def eval_arg_def prepend_slot_def get_slot_def scalar_value_def
          scalar_bits_def scalar_signed_def frame_def)
  qed
qed

lemma slot_rt:
  assumes tp: "typed_property p" and w: "w = 32 \<or> w = 64"
    and idt: "Name p = Name (IdProperty e) \<longrightarrow> GoType p = ''uint64''"
    and fv: "Name p \<noteq> Name (IdProperty e) \<longrightarrow> field_value w p (val p)"
    and fld: "map_of ent (Name p) = Some (val p)"
    and st: "started b = Some n" "FbSlot p < n" "FbvTableOffset p = 4 + 2 * FbSlot p"
    and fresh: "map_of (slots b) (FbvTableOffset p) = None"
    and var: "FbType p = ''UOffsetT'' \<longrightarrow> map_of (offsets b) (Name p) = Some (region (val p))"
  shows "\<exists>b'. exec_stmt w ent ident (slot_stmt e p) b = Inr b' \<and>
     eval_field w (slots b') (field_expr p) = Inr (expect e ident val p) \<and>
     frame b b' (FbvTableOffset p)"
proof (cases "Name p = Name (IdProperty e)")
  case True
  then have g: "GoType p = ''uint64''" using idt by simp
  have "StringTitle ''uint64'' = Some ''Uint64''" by (simp add: chars_defs)
  then have "FbType p = ''Uint64''" using tp g by (simp add: typed_property_def)
  from slot_rt_id [OF this True g st fresh, of w ent ident] True
  show ?thesis by (simp add: expect_def)
next
  case False
  then have fv': "field_value w p (val p)" using fv by simp
  have ex: "expect e ident val p = val p" using False by (simp add: expect_def)
  consider (off) "GoType p = ''string'' \<or> GoType p = ''[]byte''"
    | (bool) "GoType p = ''bool''" | (int) "GoType p = ''int''" | (uint) "GoType p = ''uint''"
    | (rune) "GoType p = ''rune''"
    | (other) "GoType p \<noteq> ''bool''" "GoType p \<noteq> ''int''" "GoType p \<noteq> ''uint''"
      "GoType p \<noteq> ''rune''" "GoType p \<noteq> ''string''" "GoType p \<noteq> ''[]byte''"
    by blast
  then show ?thesis
  proof cases
    case off
    then have u: "FbType p = ''UOffsetT''" using tp by (simp add: typed_property_def)
    from slot_rt_offset [OF u off fv' st] var u show ?thesis by (simp add: ex)
  next
    case bool
    then have u: "FbType p = ''Bool''" using tp by (simp add: typed_property_def)
    from slot_rt_bool [OF u bool False fv' fld st fresh] show ?thesis by (simp add: ex)
  next
    case int
    then have u: "FbType p = ''Int32''" using tp by (simp add: typed_property_def)
    from slot_rt_int [OF u int False w fv' fld st fresh] show ?thesis by (simp add: ex)
  next
    case uint
    then have u: "FbType p = ''Uint32''" using tp by (simp add: typed_property_def)
    from slot_rt_uint [OF u uint False w fv' fld st fresh] show ?thesis by (simp add: ex)
  next
    case rune
    then have u: "FbType p = ''Int32''" using tp by (simp add: typed_property_def)
    from slot_rt_rune [OF u rune False fv' fld st fresh] show ?thesis by (simp add: ex)
  next
    case other
    then have u: "StringTitle (GoType p) = Some (FbType p)"
      and m: "FbType p \<in> {''Byte'', ''Int8'', ''Int16'', ''Int32'', ''Int64'',
                        ''Uint8'', ''Uint16'', ''Uint32'', ''Uint64''}"
      using tp by (auto simp: typed_property_def)
    have sv: "scalar_value (FbType p) (val p)"
      using fv' other by (simp add: field_value_iff)
    from slot_rt_other [OF u m other False sv fld st fresh] show ?thesis by (simp add: ex)
  qed
qed

lemma exec_stmts_append:
  "exec_stmts w ent ident (xs @ ys) b =
     (case exec_stmts w ent ident xs b of Inl err \<Rightarrow> Inl err
      | Inr b' \<Rightarrow> exec_stmts w ent ident ys b')"
  by (induction xs arbitrary: b) (auto split: sum.splits)

lemma eval_field_cong:
  "map_of t (FbvTableOffset p) = map_of t' (FbvTableOffset p) \<Longrightarrow>
   eval_field w t (field_expr p) = eval_field w t' (field_expr p)"
proof -
  assume m: "map_of t (FbvTableOffset p) = map_of t' (FbvTableOffset p)"
  have g: "get_slot X (FbvTableOffset p) d t = get_slot X (FbvTableOffset p) d t'" for X d
    using m by (auto simp: get_slot_def split: option.splits)
  have h: "get_slot_fbutils kind (FbvTableOffset p) t = get_slot_fbutils kind (FbvTableOffset p) t'"
    for kind
    using m by (auto simp: get_slot_fbutils_def split: option.splits)
  show ?thesis
    by (simp add: field_expr_def g h split: option.splits)
qed

lemma slot_ready_frame:
  "slot_ready w n e val ent b q \<Longrightarrow>
   map_of (slots b1) (FbvTableOffset q) = map_of (slots b) (FbvTableOffset q) \<Longrightarrow>
   offsets b1 = offsets b \<Longrightarrow>
   slot_ready w n e val ent b1 q"
  by (auto simp: slot_ready_def)

lemma slot_rt_ready:
  assumes "slot_ready w n e val ent b p" and "w = 32 \<or> w = 64" and "started b = Some n"
  shows "\<exists>b'. exec_stmt w ent ident (slot_stmt e p) b = Inr b' \<and>
     eval_field w (slots b') (field_expr p) = Inr (expect e ident val p) \<and>
     frame b b' (FbvTableOffset p)"
proof -
  have P: "typed_property p" "FbvTableOffset p = 4 + 2 * FbSlot p" "FbSlot p < n"
    "Name p = Name (IdProperty e) \<longrightarrow> GoType p = ''uint64''"
    "Name p \<noteq> Name (IdProperty e) \<longrightarrow> field_value w p (val p)"
    "map_of ent (Name p) = Some (val p)" "map_of (slots b) (FbvTableOffset p) = None"
    "FbType p = ''UOffsetT'' \<longrightarrow> map_of (offsets b) (Name p) = Some (region (val p))"
    using assms(1) unfolding slot_ready_def by blast+
  from slot_rt [where val = val and p = p and e = e and ident = ident,
      OF P(1) assms(2) P(4,5,6) assms(3) P(3,2,7,8)]
  show ?thesis .
qed

lemma exec_slots:
  assumes "w = 32 \<or> w = 64"
  shows
  "distinct (map FbSlot ps) \<Longrightarrow> \<forall>p\<in>set ps. slot_ready w n e val ent b p \<Longrightarrow>
   started b = Some n \<Longrightarrow>
   \<exists>b'. exec_stmts w ent ident (map (slot_stmt e) ps) b = Inr b' \<and>
     (\<forall>p\<in>set ps. eval_field w (slots b') (field_expr p) = Inr (expect e ident val p)) \<and>
     offsets b' = offsets b \<and> started b' = started b \<and>
     (\<forall>k. k \<notin> FbvTableOffset ` set ps \<longrightarrow> map_of (slots b') k = map_of (slots b) k)"
proof (induction ps arbitrary: b)
  case Nil
  then show ?case by simp
next
  case (Cons p ps)
  have rp: "slot_ready w n e val ent b p"
    using Cons.prems(2) by simp
  from slot_rt_ready [OF rp assms Cons.prems(3), of ident]
  obtain b1 where b1: "exec_stmt w ent ident (slot_stmt e p) b = Inr b1"
    and r1: "eval_field w (slots b1) (field_expr p) = Inr (expect e ident val p)"
    and f1: "frame b b1 (FbvTableOffset p)"
    by blast
  have o1: "offsets b1 = offsets b" and s1: "started b1 = Some n"
    and k1: "\<And>j. j \<noteq> FbvTableOffset p \<Longrightarrow> map_of (slots b1) j = map_of (slots b) j"
    using f1 Cons.prems(3) by (simp_all add: frame_def)
  have ne: "FbvTableOffset q \<noteq> FbvTableOffset p" if "q \<in> set ps" for q
  proof -
    have "FbSlot p \<notin> FbSlot ` set ps" using Cons.prems(1) by simp
    moreover have "FbSlot q \<in> FbSlot ` set ps" using that by (rule imageI)
    ultimately have "FbSlot q \<noteq> FbSlot p" by metis
    moreover have "FbvTableOffset q = 4 + 2 * FbSlot q"
      using Cons.prems(2) that by (simp add: slot_ready_def)
    moreover have "FbvTableOffset p = 4 + 2 * FbSlot p"
      using rp by (simp add: slot_ready_def)
    ultimately show ?thesis by simp
  qed
  have pre: "\<forall>q\<in>set ps. slot_ready w n e val ent b1 q"
  proof
    fix q assume q: "q \<in> set ps"
    then have "slot_ready w n e val ent b q" using Cons.prems(2) by simp
    moreover have "map_of (slots b1) (FbvTableOffset q) = map_of (slots b) (FbvTableOffset q)"
      using ne [OF q] by (rule k1)
    ultimately show "slot_ready w n e val ent b1 q"
      using o1 by (rule slot_ready_frame)
  qed
  have d: "distinct (map FbSlot ps)" using Cons.prems(1) by simp
  from Cons.IH [OF d pre s1]
  obtain b' where e': "exec_stmts w ent ident (map (slot_stmt e) ps) b1 = Inr b'"
    and r': "\<forall>q\<in>set ps. eval_field w (slots b') (field_expr q) = Inr (expect e ident val q)"
    and o': "offsets b' = offsets b1" and s': "started b' = started b1"
    and k': "\<forall>k. k \<notin> FbvTableOffset ` set ps \<longrightarrow> map_of (slots b') k = map_of (slots b1) k"
    by blast
  have "FbvTableOffset p \<notin> FbvTableOffset ` set ps" using ne by force
  then have "map_of (slots b') (FbvTableOffset p) = map_of (slots b1) (FbvTableOffset p)"
    using k' by simp
  then have "eval_field w (slots b') (field_expr p) = eval_field w (slots b1) (field_expr p)"
    by (rule eval_field_cong)
  then have rp': "eval_field w (slots b') (field_expr p) = Inr (expect e ident val p)"
    using r1 by simp
  have ex: "exec_stmts w ent ident (map (slot_stmt e) (p # ps)) b = Inr b'"
    using b1 e' by simp
  have kk: "\<forall>k. k \<notin> FbvTableOffset ` set (p # ps) \<longrightarrow> map_of (slots b') k = map_of (slots b) k"
    using k' k1 by simp
  from ex rp' r' o' o1 s' s1 Cons.prems(3) kk show ?case by simp
qed

lemma typed_offset:
  "typed_property p \<Longrightarrow> FbType p = ''UOffsetT'' \<longleftrightarrow> GoType p = ''string'' \<or> GoType p = ''[]byte''"
  by (auto simp: typed_property_def split: if_splits)

lemma offset_step:
  assumes "typed_property p" and "Name p = Name (IdProperty e) \<longrightarrow> GoType p = ''uint64''"
    and "Name p \<noteq> Name (IdProperty e) \<longrightarrow> field_value w p (val p)"
    and "map_of ent (Name p) = Some (val p)"
  shows "exec_stmts w ent ident (offset_stmts p) b =
    Inr (if FbType p = ''UOffsetT'' then b\<lparr>offsets := (Name p, region (val p)) # offsets b\<rparr> else b)"
proof (cases "FbType p = ''UOffsetT''")
  case False
  then show ?thesis by (simp add: offset_stmts_def)
next
  case True
  then have g: "GoType p = ''string'' \<or> GoType p = ''[]byte''"
    using assms(1) typed_offset by blast
  then have "GoType p \<noteq> ''uint64''" by auto
  then have fv: "field_value w p (val p)" using assms(2,3) by blast
  show ?thesis
    using True g fv assms(4)
    by (auto simp: offset_stmts_def exec_stmt_def eval_arg_def create_offset_def field_value_iff
        region_def)
qed

lemma exec_offsets:
  "distinct (map Name ps) \<Longrightarrow>
   \<forall>p\<in>set ps. typed_property p \<and> (Name p = Name (IdProperty e) \<longrightarrow> GoType p = ''uint64'') \<and>
     (Name p \<noteq> Name (IdProperty e) \<longrightarrow> field_value w p (val p)) \<and>
     map_of ent (Name p) = Some (val p) \<Longrightarrow>
   \<exists>b'. exec_stmts w ent ident (concat (map offset_stmts ps)) b = Inr b' \<and>
     slots b' = slots b \<and> started b' = started b \<and>
     (\<forall>p\<in>set ps. FbType p = ''UOffsetT'' \<longrightarrow>
        map_of (offsets b') (Name p) = Some (region (val p))) \<and>
     (\<forall>n. n \<notin> Name ` set ps \<longrightarrow> map_of (offsets b') n = map_of (offsets b) n)"
proof (induction ps arbitrary: b)
  case Nil
  then show ?case by simp
next
  case (Cons p ps)
  let ?b1 = "if FbType p = ''UOffsetT'' then b\<lparr>offsets := (Name p, region (val p)) # offsets b\<rparr>
             else b"
  have s: "exec_stmts w ent ident (offset_stmts p) b = Inr ?b1"
    using Cons.prems(2) by (intro offset_step [where e = e]) simp_all
  have d: "distinct (map Name ps)" and np: "Name p \<notin> Name ` set ps"
    using Cons.prems(1) by simp_all
  have pre: "\<forall>p\<in>set ps. typed_property p \<and> (Name p = Name (IdProperty e) \<longrightarrow> GoType p = ''uint64'') \<and>
     (Name p \<noteq> Name (IdProperty e) \<longrightarrow> field_value w p (val p)) \<and>
     map_of ent (Name p) = Some (val p)"
    using Cons.prems(2) by simp
  from Cons.IH [OF d pre, of ?b1]
  obtain b' where e': "exec_stmts w ent ident (concat (map offset_stmts ps)) ?b1 = Inr b'"
    and sl: "slots b' = slots ?b1" and st: "started b' = started ?b1"
    and o': "\<forall>q\<in>set ps. FbType q = ''UOffsetT'' \<longrightarrow>
        map_of (offsets b') (Name q) = Some (region (val q))"
    and k': "\<forall>n. n \<notin> Name ` set ps \<longrightarrow> map_of (offsets b') n = map_of (offsets ?b1) n"
    by blast
  have ex: "exec_stmts w ent ident (concat (map offset_stmts (p # ps))) b = Inr b'"
    using s e' by (simp add: exec_stmts_append)
  have 1: "slots b' = slots b" "started b' = started b"
    using sl st by (simp_all split: if_splits)
  have 2: "FbType p = ''UOffsetT'' \<longrightarrow> map_of (offsets b') (Name p) = Some (region (val p))"
    using k' np by simp
  have 3: "\<forall>n. n \<notin> Name ` set (p # ps) \<longrightarrow> map_of (offsets b') n = map_of (offsets b) n"
    using k' by simp
  from ex 1 2 o' 3 show ?case by simp
qed

lemma eval_fields_map:
  "\<forall>p\<in>set ps. eval_field w t (field_expr p) = Inr (f p) \<Longrightarrow>
   eval_fields w t (map (\<lambda>property. (Name property, field_expr property)) ps) =
     Inr (map (\<lambda>p. (Name p, f p)) ps)"
  by (induction ps) simp_all

lemma map_of_fields:
  "distinct (map Name ps) \<Longrightarrow> p \<in> set ps \<Longrightarrow>
   map_of (map (\<lambda>p. (Name p, val p)) ps) (Name p) = Some (val p)"
  by (induction ps) (auto simp: image_iff)

text \<open>The round trip where it holds. For a well-formed entity, on a platform whose \<^verbatim>\<open>int\<close>
  has 32 or 64 bits, and for a record whose fields other than the identifier hold values as
  \<open>field_value\<close> describes them, decoding what \<^verbatim>\<open>Flatten\<close> encoded gives the record back
  with the identifier substituted. Empty strings and empty byte sequences are among these
  values; the negative \<^verbatim>\<open>int\<close> on 64 bits is the value left out.\<close>

lemma roundtrip_well_formed:
  assumes wf: "wf_entity e" and w: "w = 32 \<or> w = 64"
    and fv: "\<forall>p\<in>set (Properties e). Name p \<noteq> Name (IdProperty e) \<longrightarrow> field_value w p (val p)"
  shows "roundtrip w e (map (\<lambda>p. (Name p, val p)) (Properties e)) ident =
    Inr (map (\<lambda>p. (Name p, if Name p = Name (IdProperty e) then GoInt (uint ident) else val p))
          (Properties e))"
proof -
  let ?ps = "Properties e"
  let ?ent = "map (\<lambda>p. (Name p, val p)) ?ps"
  let ?n = "LastPropertyId_GetId e"
  let ?b0 = "\<lparr>offsets = [], started = None, slots = []\<rparr>"
  have dn: "distinct (map Name ?ps)" and ds: "distinct (map FbSlot ?ps)"
    using wf by (simp_all add: wf_entity_def)
  have W: "typed_property p" "FbvTableOffset p = 4 + 2 * FbSlot p" "FbSlot p < ?n"
    "Name p = Name (IdProperty e) \<longrightarrow> GoType p = ''uint64''" if "p \<in> set ?ps" for p
    using wf that unfolding wf_entity_def by blast+
  have fld: "map_of ?ent (Name p) = Some (val p)" if "p \<in> set ?ps" for p
    using dn that by (rule map_of_fields)
  have pre: "\<forall>p\<in>set ?ps. typed_property p \<and>
     (Name p = Name (IdProperty e) \<longrightarrow> GoType p = ''uint64'') \<and>
     (Name p \<noteq> Name (IdProperty e) \<longrightarrow> field_value w p (val p)) \<and>
     map_of ?ent (Name p) = Some (val p)"
    using W fv fld by blast
  have c0: "exec_stmts w ?ent ident
      (if HasNonIdProperty e then [Ent_cast (EntityName e)] else []) ?b0 = Inr ?b0"
    by (simp add: exec_stmt_def)
  from exec_offsets [OF dn pre, of ident ?b0]
  obtain b1 where e1: "exec_stmts w ?ent ident (concat (map offset_stmts ?ps)) ?b0 = Inr b1"
    and sl1: "slots b1 = []"
    and o1: "\<forall>p\<in>set ?ps. FbType p = ''UOffsetT'' \<longrightarrow>
        map_of (offsets b1) (Name p) = Some (region (val p))"
    by auto
  let ?b2 = "b1\<lparr>started := Some ?n\<rparr>"
  have e2: "exec_stmt w ?ent ident (StartObject ?n) b1 = Inr ?b2"
    by (simp add: exec_stmt_def)
  have ready: "\<forall>p\<in>set ?ps. slot_ready w ?n e val ?ent ?b2 p"
    using W fv fld o1 sl1 by (simp add: slot_ready_def)
  from exec_slots [OF w ds ready, of ident]
  obtain b3 where e3: "exec_stmts w ?ent ident (map (slot_stmt e) ?ps) ?b2 = Inr b3"
    and r3: "\<forall>p\<in>set ?ps. eval_field w (slots b3) (field_expr p) = Inr (expect e ident val p)"
    by auto
  have fl: "exec_stmts w ?ent ident (Flatten e) ?b0 = Inr b3"
    unfolding Flatten_def
    using c0 e1 e2 e3 by (simp add: exec_stmts_append)
  have t: "run_Flatten w e ?ent ident = Inr (slots b3)"
    using fl by (simp add: run_Flatten_def)
  have "run_ToObject w e (slots b3) = Inr (map (\<lambda>p. (Name p, expect e ident val p)) ?ps)"
    unfolding run_ToObject_def ToObject_def using r3 by (rule eval_fields_map)
  then show ?thesis
    using t by (simp add: roundtrip_def expect_def)
qed

lemma wf_Note: "wf_entity Note"
  by (simp add: wf_entity_def Note_def props_defs typed_property_def chars_defs)

lemma roundtrip_Note:
  "roundtrip 64 Note
     [(''Id'', GoInt 7), (''Text'', GoString []), (''Data'', GoBytes []), (''Done'', GoBool True),
      (''Size'', GoInt 7)] 9 =
   Inr [(''Id'', GoInt 9), (''Text'', GoString []), (''Data'', GoBytes []), (''Done'', GoBool True),
        (''Size'', GoInt 7)]"
proof -
  have v: "\<forall>p\<in>set (Properties Note). Name p \<noteq> Name (IdProperty Note) \<longrightarrow> field_value 64 p (note_val p)"
    by (simp add: Note_def props_defs field_value_iff note_val_def scalar_value_def
        scalar_bits_def)
  have w: "(64::nat) = 32 \<or> (64::nat) = 64" by simp
  from roundtrip_well_formed [OF wf_Note w v, of 9]
  show ?thesis
    by (simp add: Note_def props_defs note_val_def)
qed

end
